theory Spec2Isabelle
  imports Complex_Main "HOL-Library.Char_ord" "HOL-Library.List_Lexorder"
begin

section \<open>Conventions of the embedding\<close>

text \<open>
  The development embeds the model lifecycle and serving layer of the ML service:
  \<^verbatim>\<open>models/base_model.py\<close>, \<^verbatim>\<open>models/payment_prediction.py\<close>,
  \<^verbatim>\<open>services/prediction_service.py\<close> and \<^verbatim>\<open>services/training_service.py\<close>.

  \<^item> Python floats are read as real numbers: a literal such as \<^verbatim>\<open>0.4\<close> is the real
    \<open>0.4\<close>, and no rounding is modelled.
  \<^item> Every \<^verbatim>\<open>raise\<close> of the source is a value \<open>Inl e\<close> of the result type; the
    constructor of \<open>e\<close> names the exception and where it comes from.
  \<^item> Attributes that the source mutates (\<^verbatim>\<open>self.model\<close>, \<^verbatim>\<open>self.is_trained\<close>, the
    encoders, the scaler, the files on disk, the in-flight dictionary) are fields of records
    that each operation takes and returns.
  \<^item> What the source obtains from outside the repository (the clock, the calendar, the
    database, scikit-learn estimators, the outcome of file writes) is a parameter.
\<close>

datatype error =
    InsufficientData nat nat
      \<comment> \<open>\<^verbatim>\<open>ValueError("Insufficient training data: n < min")\<close> in \<^verbatim>\<open>train\<close>\<close>
  | NotTrained
      \<comment> \<open>\<^verbatim>\<open>ValueError("Model ... is not trained")\<close> in \<^verbatim>\<open>predict\<close>, \<^verbatim>\<open>predict_proba\<close>\<close>
  | UnsupportedOperation
      \<comment> \<open>\<^verbatim>\<open>ValueError("... does not support probability predictions")\<close>\<close>
  | CannotSaveUntrained
      \<comment> \<open>\<^verbatim>\<open>ValueError("Cannot save untrained model")\<close> in \<^verbatim>\<open>save_model\<close>\<close>
  | CustomerNotFound string
      \<comment> \<open>\<^verbatim>\<open>ValueError("Customer ... not found")\<close>\<close>
  | UnseenLabels "string list"
      \<comment> \<open>the \<^verbatim>\<open>ValueError\<close> of \<^verbatim>\<open>LabelEncoder.transform\<close> on labels absent from the fit\<close>
  | EmptyInput
      \<comment> \<open>the \<^verbatim>\<open>ValueError\<close> of \<^verbatim>\<open>StandardScaler.fit\<close> on a frame without rows\<close>
  | PersistenceFailure
      \<comment> \<open>an I/O exception of \<^verbatim>\<open>joblib.dump\<close>, \<^verbatim>\<open>open\<close> or \<^verbatim>\<open>json.dump\<close>\<close>
  | DataLoadError
      \<comment> \<open>an exception of \<^verbatim>\<open>load_training_data\<close>\<close>
  | EstimatorError
      \<comment> \<open>an exception raised inside a scikit-learn estimator call\<close>
  | IndexError
      \<comment> \<open>indexing a sequence out of range\<close>

section \<open>Feature pipeline of the payment delay predictor\<close>

subsection \<open>Input frames\<close>

text \<open>
  A timestamp is a real number of days since a fixed epoch. The calendar (an external
  library in the source) gives the civil fields of a timestamp.
\<close>

type_synonym timestamp = real

record civil =
  dayofweek :: nat
  day_of_month :: nat
  month_of_year :: nat

type_synonym calendar = "timestamp \<Rightarrow> civil"

text \<open>
  One row of the data frame handed to \<^verbatim>\<open>prepare_features\<close>. \<open>None\<close> is a missing
  cell (NaN, NaT, or a value that \<^verbatim>\<open>errors='coerce'\<close> turns into one).
\<close>

record payment_row =
  amount :: "real option"
  dueDate :: "timestamp option"
  paymentDate :: "timestamp option"
  creditLimit :: "real option"
  outstandingAmount :: "real option"
  customerCategory :: "string option"
  paymentMethod :: "string option"

record frame =
  columns :: "string list"
  rows :: "payment_row list"

subsection \<open>Prepared rows\<close>

record features =
  payment_amount :: real
  credit_limit :: real
  outstanding_amount :: real
  credit_utilization :: real
  due_day_of_week :: real
  due_day_of_month :: real
  due_month :: real
  due_quarter :: real
  days_until_due :: real
  customer_category_encoded :: real
  payment_method_encoded :: real
  avg_delay_days :: real
  payment_frequency :: real
  total_payments :: real
  is_delayed :: real

definition delay_feature_columns :: "string list" where
  "delay_feature_columns =
     [''payment_amount'', ''credit_limit'', ''outstanding_amount'', ''credit_utilization'',
      ''due_day_of_week'', ''due_day_of_month'', ''due_month'', ''due_quarter'',
      ''days_until_due'', ''customer_category_encoded'', ''payment_method_encoded'',
      ''avg_delay_days'', ''payment_frequency'', ''total_payments'']"

text \<open>\<^verbatim>\<open>processed_data[self.feature_columns]\<close>: the feature vector, in column order.\<close>

definition feature_vector :: "features \<Rightarrow> real list" where
  "feature_vector f =
     [payment_amount f, credit_limit f, outstanding_amount f, credit_utilization f,
      due_day_of_week f, due_day_of_month f, due_month f, due_quarter f,
      days_until_due f, customer_category_encoded f, payment_method_encoded f,
      avg_delay_days f, payment_frequency f, total_payments f]"

subsection \<open>The label encoder\<close>

text \<open>
  \<^verbatim>\<open>sklearn.preprocessing.LabelEncoder\<close>: fitting stores the sorted distinct labels;
  transforming maps a label to its position there and raises on a label that is absent.
\<close>

definition encoder_fit :: "string list \<Rightarrow> string list" where
  "encoder_fit ys = sort (remdups ys)"

fun index_of :: "string list \<Rightarrow> string \<Rightarrow> nat" where
  "index_of [] y = 0"
| "index_of (c # cs) y = (if c = y then 0 else Suc (index_of cs y))"

definition encoder_transform :: "string list \<Rightarrow> string list \<Rightarrow> error + real list" where
  "encoder_transform classes ys =
     (let unseen = filter (\<lambda>y. y \<notin> set classes) ys
      in if unseen \<noteq> [] then Inl (UnseenLabels (sort (remdups unseen)))
         else Inr (map (\<lambda>y. real (index_of classes y)) ys))"

definition encoder_fit_transform :: "string list \<Rightarrow> string list \<times> real list" where
  "encoder_fit_transform ys =
     (let classes = encoder_fit ys in (classes, map (\<lambda>y. real (index_of classes y)) ys))"

text \<open>\<^verbatim>\<open>df[col].fillna('Unknown')\<close>\<close>

definition fillna_unknown :: "string option \<Rightarrow> string" where
  "fillna_unknown v = (case v of None \<Rightarrow> ''Unknown'' | Some s \<Rightarrow> s)"

subsection \<open>The standard scaler\<close>

text \<open>
  \<^verbatim>\<open>sklearn.preprocessing.StandardScaler\<close>: fitting stores, per column, the mean and the
  population standard deviation, a zero deviation being replaced by one; transforming
  subtracts the mean and divides by the stored deviation.
\<close>

record scaler_stats =
  sc_mean :: "real list"
  sc_scale :: "real list"

definition column_mean :: "real list \<Rightarrow> real" where
  "column_mean xs = sum_list xs / real (length xs)"

definition column_var :: "real list \<Rightarrow> real" where
  "column_var xs = sum_list (map (\<lambda>x. (x - column_mean xs)\<^sup>2) xs) / real (length xs)"

definition column_scale :: "real list \<Rightarrow> real" where
  "column_scale xs = (if column_var xs = 0 then 1 else sqrt (column_var xs))"

definition scaler_fit :: "real list list \<Rightarrow> scaler_stats" where
  "scaler_fit cols = \<lparr>sc_mean = map column_mean cols, sc_scale = map column_scale cols\<rparr>"

text \<open>The transformation of one row: \<open>(x - mean) / scale\<close>, column by column.\<close>

definition scaler_transform :: "scaler_stats \<Rightarrow> real list \<Rightarrow> real list" where
  "scaler_transform st xs =
     map (\<lambda>(x, m, s). (x - m) / s) (zip xs (zip (sc_mean st) (sc_scale st)))"

section \<open>The model lifecycle manager: state\<close>

text \<open>
  \<^verbatim>\<open>self.model_metadata\<close>; the empty dictionary of \<^verbatim>\<open>__init__\<close> is \<open>None\<close> in the
  manager below.
\<close>

record metadata =
  md_model_name :: string
  md_model_type :: string
  trained_at :: timestamp
  training_data_size :: nat
  feature_count :: nat
  train_score :: real
  test_score :: real
  cv_mean_score :: real
  cv_std_score :: real
  metrics :: "(string \<times> real) list"
  md_feature_columns :: "string list"
  md_target_column :: "string option"

text \<open>
  The attributes of a \<^verbatim>\<open>BaseMLModel\<close> together with those both subclasses add in their
  \<^verbatim>\<open>__init__\<close> (\<^verbatim>\<open>scaler\<close>, \<^verbatim>\<open>label_encoders\<close>). \<open>'e\<close> is the type of estimators;
  \<open>scaler = None\<close> is a \<^verbatim>\<open>StandardScaler()\<close> that has not been fitted.
\<close>

record 'e manager =
  model_name :: string
  model_type :: string
  model :: "'e option"
  is_trained :: bool
  feature_columns :: "string list"
  target_column :: "string option"
  model_metadata :: "metadata option"
  scaler :: "scaler_stats option"
  label_encoders :: "string \<rightharpoonup> string list"

text \<open>\<^verbatim>\<open>PaymentDelayPredictor.__init__\<close>\<close>

definition PaymentDelayPredictor :: "'e manager" where
  "PaymentDelayPredictor =
     \<lparr>model_name = ''payment_delay'', model_type = ''classification'', model = None,
      is_trained = False, feature_columns = [], target_column = Some ''is_delayed'',
      model_metadata = None, scaler = None, label_encoders = Map.empty\<rparr>"

section \<open>\<^verbatim>\<open>PaymentDelayPredictor.prepare_features\<close>\<close>

definition to_numeric :: "string list \<Rightarrow> string \<Rightarrow> real option \<Rightarrow> real" where
  \<comment> \<open>\<^verbatim>\<open>pd.to_numeric(df[c], errors='coerce').fillna(0)\<close> if the column exists, else 0\<close>
  "to_numeric cols c v = (if c \<in> set cols then (case v of None \<Rightarrow> 0 | Some x \<Rightarrow> x) else 0)"

definition due_field :: "string list \<Rightarrow> timestamp option \<Rightarrow> (timestamp \<Rightarrow> real) \<Rightarrow> real" where
  \<comment> \<open>a column derived from \<^verbatim>\<open>dueDate\<close>: absent column or missing date end as 0\<close>
  "due_field cols d f =
     (if ''dueDate'' \<in> set cols then (case d of None \<Rightarrow> 0 | Some t \<Rightarrow> f t) else 0)"

definition quarter_of :: "nat \<Rightarrow> nat" where
  "quarter_of m = (m - 1) div 3 + 1"

text \<open>The columns computed before the encoders and the scaler run (lines 94--138, 170--172).\<close>

definition base_features :: "timestamp \<Rightarrow> calendar \<Rightarrow> string list \<Rightarrow> payment_row \<Rightarrow> features" where
  "base_features now cal cols r =
     (let cl = to_numeric cols ''creditLimit'' (creditLimit r);
          out = to_numeric cols ''outstandingAmount'' (outstandingAmount r)
      in \<lparr>payment_amount = to_numeric cols ''amount'' (amount r),
          credit_limit = cl,
          outstanding_amount = out,
          credit_utilization = (if cl > 0 then out / cl else 0),
          due_day_of_week = due_field cols (dueDate r) (\<lambda>t. real (dayofweek (cal t))),
          due_day_of_month = due_field cols (dueDate r) (\<lambda>t. real (day_of_month (cal t))),
          due_month = due_field cols (dueDate r) (\<lambda>t. real (month_of_year (cal t))),
          due_quarter = due_field cols (dueDate r) (\<lambda>t. real (quarter_of (month_of_year (cal t)))),
          days_until_due = due_field cols (dueDate r) (\<lambda>t. of_int \<lfloor>t - now\<rfloor>),
          customer_category_encoded = 0,
          payment_method_encoded = 0,
          avg_delay_days = 0,
          payment_frequency = 1,
          total_payments = 1,
          is_delayed =
            (if ''paymentDate'' \<in> set cols \<and> ''dueDate'' \<in> set cols
             then (case (paymentDate r, dueDate r) of
                     (Some p, Some d) \<Rightarrow> (if \<lfloor>p - d\<rfloor> > 0 then 1 else 0)
                   | _ \<Rightarrow> 0)
             else 0)\<rparr>)"

text \<open>
  The encoding of one categorical column (lines 140--152 for \<^verbatim>\<open>customerCategory\<close>,
  154--166 for \<^verbatim>\<open>paymentMethod\<close>): an absent column gives the code 0; a column with no
  encoder yet creates and fits one on this very frame; a column with an encoder is
  transformed by it, which raises on a label the encoder was not fitted on.
\<close>

definition encode_column ::
  "(string \<rightharpoonup> string list) \<Rightarrow> string \<Rightarrow> string list \<Rightarrow> string option list
     \<Rightarrow> (string \<rightharpoonup> string list) \<times> (error + real list)" where
  "encode_column encs name cols vals =
     (if name \<in> set cols then
        (case encs name of
           None \<Rightarrow>
             (let (classes, codes) = encoder_fit_transform (map fillna_unknown vals)
              in (encs(name \<mapsto> classes), Inr codes))
         | Some classes \<Rightarrow> (encs, encoder_transform classes (map fillna_unknown vals)))
      else (encs, Inr (replicate (length vals) 0)))"

definition numerical_features :: "features \<Rightarrow> real list" where
  "numerical_features f =
     [payment_amount f, credit_limit f, outstanding_amount f, credit_utilization f,
      days_until_due f]"

definition numerical_columns :: "features list \<Rightarrow> real list list" where
  "numerical_columns fs =
     [map payment_amount fs, map credit_limit fs, map outstanding_amount fs,
      map credit_utilization fs, map days_until_due fs]"

fun set_numerical :: "features \<Rightarrow> real list \<Rightarrow> features" where
  "set_numerical f [a, b, c, d, e] =
     f\<lparr>payment_amount := a, credit_limit := b, outstanding_amount := c,
       credit_utilization := d, days_until_due := e\<rparr>"
| "set_numerical f _ = f"

definition set_codes :: "features \<times> real \<times> real \<Rightarrow> features" where
  "set_codes = (\<lambda>(f, c, p). f\<lparr>customer_category_encoded := c, payment_method_encoded := p\<rparr>)"

text \<open>
  \<^verbatim>\<open>prepare_features\<close> returns the manager as the call leaves it and either the exception
  raised or the prepared rows. The scaler is fitted by \<^verbatim>\<open>fit_transform\<close> on the frame of
  the call (line 205); on a frame without rows \<^verbatim>\<open>fit\<close> resets the scaler and raises.
\<close>

definition prepare_features ::
  "timestamp \<Rightarrow> calendar \<Rightarrow> 'e manager \<Rightarrow> frame \<Rightarrow> 'e manager \<times> (error + features list)" where
  "prepare_features now cal m df =
     (let cols = columns df;
          base = map (base_features now cal cols) (rows df)
      in case encode_column (label_encoders m) ''customerCategory'' cols
                (map customerCategory (rows df)) of
           (encs1, Inl e) \<Rightarrow> (m\<lparr>label_encoders := encs1\<rparr>, Inl e)
         | (encs1, Inr cc) \<Rightarrow>
             (case encode_column encs1 ''paymentMethod'' cols (map paymentMethod (rows df)) of
                (encs2, Inl e) \<Rightarrow> (m\<lparr>label_encoders := encs2\<rparr>, Inl e)
              | (encs2, Inr pm) \<Rightarrow>
                  (let m1 = m\<lparr>label_encoders := encs2, feature_columns := delay_feature_columns\<rparr>;
                       coded = map set_codes (zip base (zip cc pm))
                   in if coded = [] then (m1\<lparr>scaler := None\<rparr>, Inl EmptyInput)
                      else
                        (let st = scaler_fit (numerical_columns coded)
                         in (m1\<lparr>scaler := Some st\<rparr>,
                             Inr (map (\<lambda>f. set_numerical f
                                   (scaler_transform st (numerical_features f))) coded))))))"

section \<open>\<^verbatim>\<open>BaseMLModel\<close>: training, persistence, prediction\<close>

subsection \<open>What the manager consumes from outside\<close>

text \<open>
  The scikit-learn calls of \<^verbatim>\<open>train\<close>, \<^verbatim>\<open>predict\<close> and \<^verbatim>\<open>predict_proba\<close>, each of which
  may raise. \<open>has_predict_proba\<close> is \<^verbatim>\<open>hasattr(self.model, 'predict_proba')\<close>: true of a
  classifier, false of a regressor.
\<close>

record evaluation =
  ev_train_score :: real
  ev_test_score :: real
  ev_cv_mean :: real
  ev_cv_std :: real
  ev_metrics :: "(string \<times> real) list"

type_synonym split = "real list list \<times> real list list \<times> real list \<times> real list"

record 'e estimator_ops =
  create_model :: "'e"
  train_test_split :: "real list list \<Rightarrow> real list \<Rightarrow> bool \<Rightarrow> error + split"
  fit :: "'e \<Rightarrow> real list list \<Rightarrow> real list \<Rightarrow> error + 'e"
  evaluate :: "'e \<Rightarrow> split \<Rightarrow> real list list \<Rightarrow> real list \<Rightarrow> error + evaluation"
  has_predict_proba :: "'e \<Rightarrow> bool"
  estimator_predict :: "'e \<Rightarrow> real list list \<Rightarrow> error + real list"
  estimator_predict_proba :: "'e \<Rightarrow> real list list \<Rightarrow> error + real list list"
  feature_importances :: "'e \<Rightarrow> real list option"

text \<open>
  The two files of a variant, \<^verbatim>\<open>model_path\<close> and \<^verbatim>\<open>metadata_path\<close>. A file that a
  failed write has left half written is \<open>Damaged\<close>: it exists and reading it raises.
\<close>

datatype 'a disk_file = Missing | Stored 'a | Damaged

record 'e storage =
  model_file :: "'e option disk_file"
  metadata_file :: "metadata option disk_file"

text \<open>How the two writes of \<^verbatim>\<open>save_model\<close> end.\<close>

datatype save_outcome =
    SaveOk
  | DumpFailsAtOpen
  | DumpFailsMidWrite
  | MetadataFailsAtOpen
  | MetadataFailsMidWrite

record 'e world =
  MIN_TRAINING_DATA_SIZE :: nat
  clock :: timestamp
  load_training_data :: "error + frame"
  save_result :: save_outcome
  ops :: "'e estimator_ops"

text \<open>
  The abstract method \<^verbatim>\<open>prepare_features\<close> followed by the two column selections
  \<^verbatim>\<open>processed_data[self.feature_columns]\<close> and \<^verbatim>\<open>processed_data[self.target_column]\<close>:
  each prepared row is its feature vector and its target value.
\<close>

type_synonym 'e prepare = "'e manager \<Rightarrow> frame \<Rightarrow> 'e manager \<times> (error + (real list \<times> real) list)"

definition delay_prepare :: "timestamp \<Rightarrow> calendar \<Rightarrow> 'e prepare" where
  "delay_prepare now cal m df =
     (case prepare_features now cal m df of
        (m', Inl e) \<Rightarrow> (m', Inl e)
      | (m', Inr fs) \<Rightarrow> (m', Inr (map (\<lambda>f. (feature_vector f, is_delayed f)) fs)))"

subsection \<open>\<^verbatim>\<open>save_model\<close> and \<^verbatim>\<open>load_model\<close>\<close>

definition save_model ::
  "save_outcome \<Rightarrow> 'e manager \<Rightarrow> 'e storage \<Rightarrow> 'e storage \<times> (error + unit)" where
  "save_model outcome m st =
     (if \<not> is_trained m then (st, Inl CannotSaveUntrained)
      else case outcome of
          DumpFailsAtOpen \<Rightarrow> (st, Inl PersistenceFailure)
        | DumpFailsMidWrite \<Rightarrow> (st\<lparr>model_file := Damaged\<rparr>, Inl PersistenceFailure)
        | MetadataFailsAtOpen \<Rightarrow>
            (st\<lparr>model_file := Stored (model m)\<rparr>, Inl PersistenceFailure)
        | MetadataFailsMidWrite \<Rightarrow>
            (st\<lparr>model_file := Stored (model m), metadata_file := Damaged\<rparr>,
             Inl PersistenceFailure)
        | SaveOk \<Rightarrow>
            (st\<lparr>model_file := Stored (model m), metadata_file := Stored (model_metadata m)\<rparr>,
             Inr ()))"

text \<open>
  \<^verbatim>\<open>load_model\<close> never raises: it returns \<^verbatim>\<open>False\<close> when a file is missing and when
  reading one raises. An estimator read before the metadata fails to load stays in
  \<^verbatim>\<open>self.model\<close>.
\<close>

definition load_model :: "'e manager \<Rightarrow> 'e storage \<Rightarrow> 'e manager \<times> bool" where
  "load_model m st =
     (if model_file st \<noteq> Missing \<and> metadata_file st \<noteq> Missing then
        (case model_file st of
           Stored e \<Rightarrow>
             (case metadata_file st of
                Stored md \<Rightarrow>
                  (m\<lparr>model := e,
                     model_metadata := md,
                     feature_columns := (case md of None \<Rightarrow> [] | Some d \<Rightarrow> md_feature_columns d),
                     target_column := (case md of None \<Rightarrow> None | Some d \<Rightarrow> md_target_column d),
                     is_trained := True\<rparr>, True)
              | _ \<Rightarrow> (m\<lparr>model := e\<rparr>, False))
         | _ \<Rightarrow> (m, False))
      else (m, False))"

subsection \<open>\<^verbatim>\<open>train\<close>\<close>

text \<open>\<^verbatim>\<open>_is_classification\<close>\<close>

definition is_classification :: "'e estimator_ops \<Rightarrow> 'e manager \<Rightarrow> bool" where
  "is_classification eo m = (case model m of None \<Rightarrow> False | Some e \<Rightarrow> has_predict_proba eo e)"

definition make_metadata :: "'e world \<Rightarrow> 'e manager \<Rightarrow> nat \<Rightarrow> evaluation \<Rightarrow> metadata" where
  "make_metadata w m n ev =
     \<lparr>md_model_name = model_name m, md_model_type = model_type m, trained_at = clock w,
      training_data_size = n, feature_count = length (feature_columns m),
      train_score = ev_train_score ev, test_score = ev_test_score ev,
      cv_mean_score = ev_cv_mean ev, cv_std_score = ev_cv_std ev, metrics = ev_metrics ev,
      md_feature_columns = feature_columns m, md_target_column = target_column m\<rparr>"

text \<open>
  \<^verbatim>\<open>train\<close>, statement by statement; the state returned with an error is the state at the
  \<^verbatim>\<open>raise\<close>. The assignment \<^verbatim>\<open>self.is_trained = True\<close> (line 129) comes before
  \<^verbatim>\<open>await self.save_model()\<close> (line 132). The performance check of lines 126--127 only
  logs and is left out.
\<close>

definition train ::
  "'e world \<Rightarrow> 'e prepare \<Rightarrow> 'e manager \<times> 'e storage \<Rightarrow> frame option \<Rightarrow> bool
     \<Rightarrow> ('e manager \<times> 'e storage) \<times> (error + metadata)" where
  "train w prep ms data retrain =
     (let m = fst ms; st = snd ms in
      case (case data of None \<Rightarrow> load_training_data w | Some d \<Rightarrow> Inr d) of
        Inl e \<Rightarrow> ((m, st), Inl e)
      | Inr d \<Rightarrow>
          if length (rows d) < MIN_TRAINING_DATA_SIZE w
          then ((m, st), Inl (InsufficientData (length (rows d)) (MIN_TRAINING_DATA_SIZE w)))
          else
            (case prep m d of
               (m1, Inl e) \<Rightarrow> ((m1, st), Inl e)
             | (m1, Inr xy) \<Rightarrow>
                 (case train_test_split (ops w) (map fst xy) (map snd xy)
                         (is_classification (ops w) m1) of
                    Inl e \<Rightarrow> ((m1, st), Inl e)
                  | Inr sp \<Rightarrow>
                      (let est = (case model m1 of
                                    None \<Rightarrow> create_model (ops w)
                                  | Some e \<Rightarrow> if retrain then create_model (ops w) else e);
                           m2 = m1\<lparr>model := Some est\<rparr>
                       in case fit (ops w) est (fst sp) (fst (snd (snd sp))) of
                            Inl e \<Rightarrow> ((m2, st), Inl e)
                          | Inr est' \<Rightarrow>
                              (let m3 = m2\<lparr>model := Some est'\<rparr>
                               in case evaluate (ops w) est' sp (map fst xy) (map snd xy) of
                                    Inl e \<Rightarrow> ((m3, st), Inl e)
                                  | Inr ev \<Rightarrow>
                                      (let md = make_metadata w m3 (length (rows d)) ev;
                                           m4 = m3\<lparr>model_metadata := Some md\<rparr>;
                                           m5 = m4\<lparr>is_trained := True\<rparr>
                                       in case save_model (save_result w) m5 st of
                                            (st', Inl e) \<Rightarrow> ((m5, st'), Inl e)
                                          | (st', Inr u) \<Rightarrow> ((m5, st'), Inr md)))))))"

subsection \<open>\<^verbatim>\<open>predict\<close> and \<^verbatim>\<open>predict_proba\<close>\<close>

text \<open>Lines 144--145 and 158--159: the lazy load of an untrained manager.\<close>

definition lazy_load :: "'e manager \<Rightarrow> 'e storage \<Rightarrow> 'e manager" where
  "lazy_load m st = (if \<not> is_trained m then fst (load_model m st) else m)"

definition predict ::
  "'e world \<Rightarrow> 'e prepare \<Rightarrow> 'e manager \<times> 'e storage \<Rightarrow> frame
     \<Rightarrow> 'e manager \<times> (error + real list)" where
  "predict w prep ms df =
     (let m1 = lazy_load (fst ms) (snd ms) in
      if \<not> is_trained m1 then (m1, Inl NotTrained)
      else case prep m1 df of
             (m2, Inl e) \<Rightarrow> (m2, Inl e)
           | (m2, Inr xy) \<Rightarrow>
               (case model m2 of
                  None \<Rightarrow> (m2, Inl EstimatorError)
                | Some e \<Rightarrow> (m2, estimator_predict (ops w) e (map fst xy))))"

definition predict_proba ::
  "'e world \<Rightarrow> 'e prepare \<Rightarrow> 'e manager \<times> 'e storage \<Rightarrow> frame
     \<Rightarrow> 'e manager \<times> (error + real list list)" where
  "predict_proba w prep ms df =
     (let m1 = lazy_load (fst ms) (snd ms) in
      if \<not> is_trained m1 then (m1, Inl NotTrained)
      else if \<not> is_classification (ops w) m1 then (m1, Inl UnsupportedOperation)
      else case prep m1 df of
             (m2, Inl e) \<Rightarrow> (m2, Inl e)
           | (m2, Inr xy) \<Rightarrow>
               (case model m2 of
                  None \<Rightarrow> (m2, Inl EstimatorError)
                | Some e \<Rightarrow> (m2, estimator_predict_proba (ops w) e (map fst xy))))"

subsection \<open>\<^verbatim>\<open>get_feature_importance\<close>\<close>

text \<open>
  The importances zipped with the feature columns and sorted by decreasing importance
  (a stable sort, as \<^verbatim>\<open>sorted(..., reverse=True)\<close> is); empty if the manager is
  untrained or the estimator has no \<^verbatim>\<open>feature_importances_\<close>.
\<close>

definition get_feature_importance :: "'e estimator_ops \<Rightarrow> 'e manager \<Rightarrow> (string \<times> real) list" where
  "get_feature_importance eo m =
     (if \<not> is_trained m then []
      else case model m of
             None \<Rightarrow> []
           | Some e \<Rightarrow>
               (case feature_importances eo e of
                  None \<Rightarrow> []
                | Some imp \<Rightarrow> sort_key (\<lambda>p. - snd p) (zip (feature_columns m) imp)))"

section \<open>\<^verbatim>\<open>PredictionService\<close>\<close>

subsection \<open>The database\<close>

text \<open>
  The documents the service reads. A field is \<open>None\<close> when the document lacks the key,
  so that the default of the corresponding \<^verbatim>\<open>.get\<close> applies. The helper methods
  \<^verbatim>\<open>_get_customer_data\<close>, \<^verbatim>\<open>_get_item_data\<close>, \<^verbatim>\<open>_get_item_sales_history\<close> and
  \<^verbatim>\<open>_get_customer_payment_history\<close> catch every exception and then return \<^verbatim>\<open>None\<close> or the
  empty list; the finds below return the documents in the order the query asks for.
\<close>

record customer =
  cust_creditLimit :: "real option"
  cust_outstandingAmount :: "real option"
  cust_category :: "string option"
  cust_preferredPaymentMethod :: "string option"
  cust_averageOrderValue :: "real option"

record payment_doc =
  isLate :: "bool option"

record item =
  stockLevel :: "real option"
  itemName :: "string option"

record sale =
  quantity :: "real option"
  sale_date :: "timestamp option"

record database =
  find_customer :: "string \<rightharpoonup> customer"
  find_payments :: "string \<Rightarrow> payment_doc list"
  find_item :: "string \<rightharpoonup> item"
  find_sales :: "string \<Rightarrow> sale list"

definition get_customer_payment_history :: "database \<Rightarrow> string \<Rightarrow> payment_doc list" where
  \<comment> \<open>\<^verbatim>\<open>limit=50\<close>: the last 50 payments\<close>
  "get_customer_payment_history db cid = take 50 (find_payments db cid)"

definition get_item_sales_history :: "database \<Rightarrow> string \<Rightarrow> sale list" where
  \<comment> \<open>\<^verbatim>\<open>limit=365\<close>\<close>
  "get_item_sales_history db iid = take 365 (find_sales db iid)"

definition get_or :: "'a option \<Rightarrow> 'a \<Rightarrow> 'a" where
  \<comment> \<open>\<^verbatim>\<open>d.get(key, default)\<close>\<close>
  "get_or v d = (case v of None \<Rightarrow> d | Some x \<Rightarrow> x)"

subsection \<open>\<^verbatim>\<open>_calculate_risk_level\<close> and \<^verbatim>\<open>predict_payment_delay\<close>\<close>

definition calculate_risk_level :: "real \<Rightarrow> string" where
  "calculate_risk_level probability =
     (if probability \<ge> 0.7 then ''High''
      else if probability \<ge> 0.4 then ''Medium''
      else ''Low'')"

record prediction =
  customer_id :: string
  delay_probability :: real
  predicted_delay_days :: int
  risk_level :: string
  confidence_score :: real
  factors :: "(string \<times> real) list"

text \<open>Python's \<^verbatim>\<open>int(x)\<close> on a float: truncation towards zero.\<close>

definition py_int :: "real \<Rightarrow> int" where
  "py_int x = (if x \<ge> 0 then \<lfloor>x\<rfloor> else \<lceil>x\<rceil>)"

text \<open>The one-row frame of lines 69--77.\<close>

definition prediction_data ::
  "timestamp \<Rightarrow> customer \<Rightarrow> real option \<Rightarrow> timestamp option \<Rightarrow> int \<Rightarrow> frame" where
  "prediction_data now c amt due_date days_ahead =
     \<lparr>columns = [''customerId'', ''amount'', ''dueDate'', ''creditLimit'',
                 ''outstandingAmount'', ''customerCategory'', ''paymentMethod''],
      rows = [\<lparr>amount = Some (case amt of
                               None \<Rightarrow> get_or (cust_averageOrderValue c) 1000
                             | Some a \<Rightarrow> if a = 0 then get_or (cust_averageOrderValue c) 1000 else a),
               dueDate = Some (case due_date of
                                 None \<Rightarrow> now + of_int days_ahead
                               | Some d \<Rightarrow> d),
               paymentDate = None,
               creditLimit = Some (get_or (cust_creditLimit c) 0),
               outstandingAmount = Some (get_or (cust_outstandingAmount c) 0),
               customerCategory = Some (get_or (cust_category c) ''Regular''),
               paymentMethod = Some (get_or (cust_preferredPaymentMethod c) ''Bank Transfer'')\<rparr>]\<rparr>"

text \<open>\<^verbatim>\<open>float(delay_prob[0][1])\<close> and \<^verbatim>\<open>delay_prediction[0]\<close>, which raise out of range.\<close>

definition proba_0_1 :: "real list list \<Rightarrow> error + real" where
  "proba_0_1 pr = (case pr of (_ # p # _) # _ \<Rightarrow> Inr p | _ \<Rightarrow> Inl IndexError)"

definition first_prediction :: "real list \<Rightarrow> error + real" where
  "first_prediction ps = (case ps of [] \<Rightarrow> Inl IndexError | p # _ \<Rightarrow> Inr p)"

text \<open>
  \<^verbatim>\<open>predict_payment_delay\<close>. The state is the delay manager of the service and the files
  of its variant; it is returned as the call leaves it, also when the call raises.
\<close>

definition predict_payment_delay ::
  "'e world \<Rightarrow> calendar \<Rightarrow> database \<Rightarrow> 'e manager \<times> 'e storage \<Rightarrow> string \<Rightarrow> real option
     \<Rightarrow> timestamp option \<Rightarrow> int \<Rightarrow> ('e manager \<times> 'e storage) \<times> (error + prediction)" where
  "predict_payment_delay w cal db ms cid amt due_date days_ahead =
     (let prep = delay_prepare (clock w) cal;
          ensured = (if \<not> is_trained (fst ms)
                     then (case train w prep ms None False of
                             (ms', Inl e) \<Rightarrow> (ms', Some e)
                           | (ms', Inr md) \<Rightarrow> (ms', None))
                     else (ms, None))
      in case ensured of
           (ms1, Some e) \<Rightarrow> (ms1, Inl e)
         | (ms1, None) \<Rightarrow>
             (case find_customer db cid of
                None \<Rightarrow> (ms1, Inl (CustomerNotFound cid))
              | Some c \<Rightarrow>
                  (let df = prediction_data (clock w) c amt due_date days_ahead
                   in case predict_proba w prep ms1 df of
                        (m2, Inl e) \<Rightarrow> ((m2, snd ms1), Inl e)
                      | (m2, Inr delay_prob) \<Rightarrow>
                          (case predict w prep (m2, snd ms1) df of
                             (m3, Inl e) \<Rightarrow> ((m3, snd ms1), Inl e)
                           | (m3, Inr delay_prediction) \<Rightarrow>
                               (case proba_0_1 delay_prob of
                                  Inl e \<Rightarrow> ((m3, snd ms1), Inl e)
                                | Inr p \<Rightarrow>
                                    (case first_prediction delay_prediction of
                                       Inl e \<Rightarrow> ((m3, snd ms1), Inl e)
                                     | Inr d \<Rightarrow>
                                         ((m3, snd ms1),
                                          Inr \<lparr>customer_id = cid,
                                               delay_probability = p,
                                               predicted_delay_days = (if d > 0 then py_int d else 0),
                                               risk_level = calculate_risk_level p,
                                               confidence_score = max p (1 - p),
                                               factors = take 5 (get_feature_importance (ops w) m3)\<rparr>)))))))"

subsection \<open>\<^verbatim>\<open>predict_payment_delay_bulk\<close>\<close>

record summary =
  total_customers :: nat
  successful_predictions :: nat
  high_risk_customers :: nat
  medium_risk_customers :: nat
  low_risk_customers :: nat
  average_delay_probability :: real

record bulk_result =
  predictions :: "prediction list"
  bulk_summary :: summary

text \<open>
  The loop of lines 116--134 with its four accumulators: a prediction that raises is
  skipped (\<^verbatim>\<open>continue\<close>), the state it leaves is kept.
\<close>

fun bulk_loop ::
  "'e world \<Rightarrow> calendar \<Rightarrow> database \<Rightarrow> int \<Rightarrow> 'e manager \<times> 'e storage \<Rightarrow> string list
     \<Rightarrow> prediction list \<times> nat \<times> nat \<times> nat
     \<Rightarrow> ('e manager \<times> 'e storage) \<times> (prediction list \<times> nat \<times> nat \<times> nat)" where
  "bulk_loop w cal db days_ahead ms [] acc = (ms, acc)"
| "bulk_loop w cal db days_ahead ms (cid # cids) (ps, hi, me, lo) =
     (case predict_payment_delay w cal db ms cid None None days_ahead of
        (ms', Inl e) \<Rightarrow> bulk_loop w cal db days_ahead ms' cids (ps, hi, me, lo)
      | (ms', Inr p) \<Rightarrow>
          bulk_loop w cal db days_ahead ms' cids
            (if risk_level p = ''High'' then (ps @ [p], hi + 1, me, lo)
             else if risk_level p = ''Medium'' then (ps @ [p], hi, me + 1, lo)
             else (ps @ [p], hi, me, lo + 1)))"

definition predict_payment_delay_bulk ::
  "'e world \<Rightarrow> calendar \<Rightarrow> database \<Rightarrow> 'e manager \<times> 'e storage \<Rightarrow> string list \<Rightarrow> int
     \<Rightarrow> ('e manager \<times> 'e storage) \<times> bulk_result" where
  "predict_payment_delay_bulk w cal db ms customer_ids days_ahead =
     (case bulk_loop w cal db days_ahead ms customer_ids ([], 0, 0, 0) of
        (ms', ps, hi, me, lo) \<Rightarrow>
          (ms',
           \<lparr>predictions = ps,
            bulk_summary =
              \<lparr>total_customers = length customer_ids,
               successful_predictions = length ps,
               high_risk_customers = hi,
               medium_risk_customers = me,
               low_risk_customers = lo,
               average_delay_probability =
                 (if ps \<noteq> [] then sum_list (map delay_probability ps) / real (length ps)
                  else 0)\<rparr>\<rparr>))"

subsection \<open>\<^verbatim>\<open>forecast_inventory_demand\<close>\<close>

definition calculate_average_daily_demand :: "timestamp \<Rightarrow> sale list \<Rightarrow> real" where
  "calculate_average_daily_demand now sales_data =
     (if sales_data = [] then 1
      else
        (let total_quantity = sum_list (map (\<lambda>s. get_or (quantity s) 0) sales_data);
             days = length (remdups (map (\<lambda>s. \<lfloor>get_or (sale_date s) now\<rfloor>) sales_data))
         in total_quantity / real (max days 1)))"

definition get_seasonal_factor :: "nat \<Rightarrow> real" where
  "get_seasonal_factor m =
     (if m = 1 then 0.8 else if m = 2 then 0.9 else if m = 3 then 1.1
      else if m = 4 then 1.0 else if m = 5 then 1.0 else if m = 6 then 1.0
      else if m = 7 then 1.2 else if m = 8 then 1.1 else if m = 9 then 1.0
      else if m = 10 then 1.1 else if m = 11 then 1.3 else if m = 12 then 1.4
      else 1.0)"

record day_forecast =
  forecast_date :: timestamp
  predicted_demand :: int
  confidence :: real

definition forecast_day :: "timestamp \<Rightarrow> calendar \<Rightarrow> bool \<Rightarrow> real \<Rightarrow> int \<Rightarrow> day_forecast" where
  "forecast_day now cal include_seasonality avg_daily_demand d =
     (let date = now + of_int d;
          base_demand = (if include_seasonality
                         then avg_daily_demand * get_seasonal_factor (month_of_year (cal date))
                         else avg_daily_demand)
      in \<lparr>forecast_date = date, predicted_demand = max 0 (py_int base_demand),
          confidence = 0.75\<rparr>)"

record reorder_recommendation =
  should_reorder :: bool
  recommended_quantity :: real
  reorder_date :: timestamp
  reason_demand :: int
  reason_stock :: real

record item_forecast =
  item_id :: string
  item_name :: string
  current_stock :: real
  forecast_data :: "day_forecast list"
  reorder :: reorder_recommendation
  fc_confidence_score :: real

text \<open>
  The body of the loop for one item that exists (lines 171--211); the \<^verbatim>\<open>reason\<close> string
  is kept as the two numbers it is formatted from.
\<close>

definition forecast_item ::
  "timestamp \<Rightarrow> calendar \<Rightarrow> database \<Rightarrow> int \<Rightarrow> bool \<Rightarrow> string \<Rightarrow> item \<Rightarrow> item_forecast" where
  "forecast_item now cal db days_ahead include_seasonality iid item_data =
     (let sales_data = get_item_sales_history db iid;
          stock = get_or (stockLevel item_data) 0;
          avg_daily_demand = calculate_average_daily_demand now sales_data;
          fc = map (forecast_day now cal include_seasonality avg_daily_demand) [1..days_ahead];
          total_predicted_demand = sum_list (map predicted_demand fc);
          reorder_point = max 0 (of_int total_predicted_demand - stock)
      in \<lparr>item_id = iid,
          item_name = get_or (itemName item_data) ''Unknown'',
          current_stock = stock,
          forecast_data = fc,
          reorder = \<lparr>should_reorder = (reorder_point > 0),
                     recommended_quantity = reorder_point,
                     reorder_date = now + 7,
                     reason_demand = total_predicted_demand,
                     reason_stock = stock\<rparr>,
          fc_confidence_score = 0.75\<rparr>)"

fun forecast_inventory_demand ::
  "timestamp \<Rightarrow> calendar \<Rightarrow> database \<Rightarrow> string list \<Rightarrow> int \<Rightarrow> bool \<Rightarrow> item_forecast list" where
  "forecast_inventory_demand now cal db [] days_ahead include_seasonality = []"
| "forecast_inventory_demand now cal db (iid # iids) days_ahead include_seasonality =
     (case find_item db iid of
        None \<Rightarrow> forecast_inventory_demand now cal db iids days_ahead include_seasonality
      | Some item_data \<Rightarrow>
          forecast_item now cal db days_ahead include_seasonality iid item_data
            # forecast_inventory_demand now cal db iids days_ahead include_seasonality)"

subsection \<open>\<^verbatim>\<open>assess_customer_risk\<close>\<close>

text \<open>A risk factor; its \<^verbatim>\<open>value\<close> is kept as the number the source formats.\<close>

record risk_factor =
  factor :: string
  factor_value :: real
  impact :: string

record risk_assessment =
  ra_customer_id :: string
  risk_score :: real
  ra_risk_level :: string
  risk_factors :: "risk_factor list"
  recommendations :: "string list"
  assessment_date :: timestamp

fun starts_with :: "string \<Rightarrow> string \<Rightarrow> bool" where
  "starts_with [] ys = True"
| "starts_with (x # xs) [] = False"
| "starts_with (x # xs) (y # ys) = (x = y \<and> starts_with xs ys)"

fun contains :: "string \<Rightarrow> string \<Rightarrow> bool" where
  \<comment> \<open>\<^verbatim>\<open>sub in s\<close> on strings\<close>
  "contains sub [] = (sub = [])"
| "contains sub (y # ys) = (starts_with sub (y # ys) \<or> contains sub ys)"

definition generate_risk_recommendations :: "string \<Rightarrow> risk_factor list \<Rightarrow> string list" where
  "generate_risk_recommendations level fs =
     (if level = ''High'' then
        [''Consider reducing credit limit or requiring advance payment'',
         ''Implement more frequent payment reminders'',
         ''Review customer's financial stability and payment capacity'']
      else if level = ''Medium'' then
        [''Monitor payment behavior closely'',
         ''Consider offering payment plan options'',
         ''Send proactive payment reminders'']
      else [''Continue regular monitoring''])
     @ concat (map (\<lambda>f.
         if contains ''Credit Utilization'' (factor f)
         then [''Consider discussing credit limit adjustment'']
         else if contains ''Late Payments'' (factor f)
         then [''Implement automated payment reminders'']
         else []) fs)"

text \<open>
  The three rules of lines 238--270, each returning the factors and the score so far.
\<close>

definition utilization_rule ::
  "real \<Rightarrow> real \<Rightarrow> risk_factor list \<times> real \<Rightarrow> risk_factor list \<times> real" where
  "utilization_rule limit outstanding acc =
     (if limit > 0 \<and> outstanding / limit > 0.8
      then (fst acc @ [\<lparr>factor = ''High Credit Utilization'',
                        factor_value = outstanding / limit, impact = ''High''\<rparr>],
            snd acc + 0.3)
      else acc)"

definition late_payment_ratio :: "payment_doc list \<Rightarrow> real" where
  "late_payment_ratio payment_history =
     real (length (filter (\<lambda>p. get_or (isLate p) False) payment_history))
       / real (length payment_history)"

definition history_rule ::
  "payment_doc list \<Rightarrow> risk_factor list \<times> real \<Rightarrow> risk_factor list \<times> real" where
  "history_rule payment_history acc =
     (if payment_history \<noteq> [] \<and> late_payment_ratio payment_history > 0.2
      then (fst acc @ [\<lparr>factor = ''Frequent Late Payments'',
                        factor_value = late_payment_ratio payment_history, impact = ''High''\<rparr>],
            snd acc + 0.4)
      else acc)"

definition outstanding_rule ::
  "real \<Rightarrow> real \<Rightarrow> risk_factor list \<times> real \<Rightarrow> risk_factor list \<times> real" where
  "outstanding_rule limit outstanding acc =
     (if outstanding > limit * 0.5
      then (fst acc @ [\<lparr>factor = ''High Outstanding Amount'',
                        factor_value = outstanding, impact = ''Medium''\<rparr>],
            snd acc + 0.2)
      else acc)"

definition assess_customer_risk ::
  "timestamp \<Rightarrow> database \<Rightarrow> string \<Rightarrow> error + risk_assessment" where
  "assess_customer_risk now db cid =
     (case find_customer db cid of
        None \<Rightarrow> Inl (CustomerNotFound cid)
      | Some customer_data \<Rightarrow>
          (let payment_history = get_customer_payment_history db cid;
               limit = get_or (cust_creditLimit customer_data) 0;
               outstanding = get_or (cust_outstandingAmount customer_data) 0;
               acc = outstanding_rule limit outstanding
                       (history_rule payment_history
                          (utilization_rule limit outstanding ([], 0)));
               score = snd acc;
               level = (if score \<ge> 0.7 then ''High''
                        else if score \<ge> 0.4 then ''Medium''
                        else ''Low'')
           in Inr \<lparr>ra_customer_id = cid,
                   risk_score = min score 1.0,
                   ra_risk_level = level,
                   risk_factors = fst acc,
                   recommendations = generate_risk_recommendations level (fst acc),
                   assessment_date = now\<rparr>))"

section \<open>\<^verbatim>\<open>TrainingService._train_model\<close>\<close>

text \<open>
  What one call returns: the dictionaries with \<^verbatim>\<open>'status'\<close> \<^verbatim>\<open>'skipped'\<close>,
  \<^verbatim>\<open>'failed'\<close> (with a \<^verbatim>\<open>'reason'\<close> or with the \<^verbatim>\<open>'error'\<close> caught) and \<^verbatim>\<open>'success'\<close>.
\<close>

datatype training_outcome =
    Skipped string
  | FailedInsufficient nat nat
  | FailedError error
  | Success real "(string \<times> real) list" nat

fun status :: "training_outcome \<Rightarrow> string" where
  "status (Skipped r) = ''skipped''"
| "status (FailedInsufficient c n) = ''failed''"
| "status (FailedError e) = ''failed''"
| "status (Success d ms n) = ''success''"

text \<open>
  The settings and collaborators of a call: the retrain interval in hours, the result of
  \<^verbatim>\<open>count_documents\<close> for a model type (\<open>None\<close> when the query raises or the type is
  unknown), and the duration measured around \<^verbatim>\<open>model.train\<close>.
\<close>

record training_env =
  MODEL_RETRAIN_INTERVAL_HOURS :: real
  count_documents :: "string \<Rightarrow> nat option"
  training_duration :: real

definition check_training_data_availability ::
  "'e world \<Rightarrow> training_env \<Rightarrow> string \<Rightarrow> bool \<times> nat" where
  "check_training_data_availability w te mt =
     (case count_documents te mt of
        None \<Rightarrow> (False, 0)
      | Some c \<Rightarrow> (c \<ge> MIN_TRAINING_DATA_SIZE w, c))"

text \<open>
  The \<^verbatim>\<open>try\<close> block of \<^verbatim>\<open>_train_model\<close> (lines 142--181) with its \<^verbatim>\<open>except\<close> clause:
  an exception of \<^verbatim>\<open>model.train\<close> becomes a \<^verbatim>\<open>'failed'\<close> result.
  \<^verbatim>\<open>_save_training_metadata\<close> writes to the database, catches every exception and
  touches neither the manager nor the in-flight dictionary.
\<close>

definition train_model_body ::
  "'e world \<Rightarrow> training_env \<Rightarrow> 'e prepare \<Rightarrow> 'e manager \<times> 'e storage \<Rightarrow> string \<Rightarrow> bool
     \<Rightarrow> ('e manager \<times> 'e storage) \<times> training_outcome" where
  "train_model_body w te prep ms mt force_retrain =
     (if \<not> force_retrain \<and> is_trained (fst ms) \<and>
         (case model_metadata (fst ms) of
            None \<Rightarrow> False
          | Some md \<Rightarrow> (clock w - trained_at md) * 24 < MODEL_RETRAIN_INTERVAL_HOURS te)
      then (ms, Skipped ''Model is recent enough'')
      else
        (let data_check = check_training_data_availability w te mt
         in if \<not> fst data_check
            then (ms, FailedInsufficient (snd data_check) (MIN_TRAINING_DATA_SIZE w))
            else
              (case train w prep ms None force_retrain of
                 (ms', Inl e) \<Rightarrow> (ms', FailedError e)
               | (ms', Inr training_result) \<Rightarrow>
                   (ms', Success (training_duration te) (metrics training_result)
                           (training_data_size training_result)))))"

text \<open>
  The in-flight dictionary \<^verbatim>\<open>self.training_in_progress\<close>: marked on entry (line 141),
  popped in the \<^verbatim>\<open>finally\<close> clause (line 190).
\<close>

type_synonym in_flight = "string \<rightharpoonup> bool"

definition mark_in_progress :: "in_flight \<Rightarrow> string \<Rightarrow> in_flight" where
  "mark_in_progress tip mt = tip(mt \<mapsto> True)"

definition pop_in_progress :: "in_flight \<Rightarrow> string \<Rightarrow> in_flight" where
  "pop_in_progress tip mt = tip(mt := None)"

text \<open>
  Lines 134--141: the guard and the marking. No \<^verbatim>\<open>await\<close> separates them, so on the
  event loop they are one step. \<open>None\<close> is the early return of the guard.
\<close>

definition train_model_enter :: "in_flight \<Rightarrow> string \<Rightarrow> in_flight option" where
  "train_model_enter tip mt = (if mt \<in> dom tip then None else Some (mark_in_progress tip mt))"

section \<open>Training runs on the event loop\<close>

text \<open>
  The service runs its coroutines on one event loop; they interleave at their
  \<^verbatim>\<open>await\<close>s only. Three coroutines start training runs:
  \<^item> \<^verbatim>\<open>TrainingService._train_model(model, model_type, force_retrain)\<close>, called by the
    scheduler's jobs through \<^verbatim>\<open>train_all_models\<close> and \<^verbatim>\<open>train_specific_model\<close>. It is at
    its guard, in its \<^verbatim>\<open>try\<close> block (where it awaits \<^verbatim>\<open>model.train\<close>), or finished with
    its result.
  \<^item> \<^verbatim>\<open>PredictionService.retrain_models\<close> (lines 315--327), for one of its two models:
    it awaits \<^verbatim>\<open>model.train(retrain=True)\<close> and catches what it raises.
  \<^item> \<^verbatim>\<open>PredictionService._ensure_model_trained\<close> (lines 332--336), called by
    \<^verbatim>\<open>predict_payment_delay\<close> on the delay model: it awaits \<^verbatim>\<open>model.train()\<close> if the model
    is not trained.
  The two prediction-service coroutines consult no in-flight dictionary. Each service has
  its own manager objects; managers of one variant share the variant's two files. The
  effect of a training run on the manager and the files is taken at the step that ends it.
\<close>

datatype phase = AtGuard | InBody | Finished training_outcome

datatype service_phase = BeforeTrain | InTrain | AfterTrain "error option"

datatype task =
    TrainModel string bool phase
  | RetrainModels string service_phase
  | EnsureModelTrained service_phase

record 'e process =
  training_in_progress :: in_flight
  training_models :: "string \<Rightarrow> 'e manager"
  prediction_models :: "string \<Rightarrow> 'e manager"
  stored :: "string \<Rightarrow> 'e storage"
  tasks :: "task list"

definition raised :: "error + 'a \<Rightarrow> error option" where
  "raised r = (case r of Inl e \<Rightarrow> Some e | Inr x \<Rightarrow> None)"

text \<open>One step of task number \<open>i\<close>, up to its next \<^verbatim>\<open>await\<close> or its end.\<close>

fun task_step ::
  "(string \<Rightarrow> 'e world) \<Rightarrow> training_env \<Rightarrow> (string \<Rightarrow> 'e prepare) \<Rightarrow> 'e process \<Rightarrow> nat \<Rightarrow> task
     \<Rightarrow> 'e process" where
  "task_step w te prep p i (TrainModel mt force_retrain AtGuard) =
     (case train_model_enter (training_in_progress p) mt of
        None \<Rightarrow>
          p\<lparr>tasks := (tasks p)[i := TrainModel mt force_retrain
                        (Finished (Skipped ''Training already in progress''))]\<rparr>
      | Some tip \<Rightarrow>
          p\<lparr>training_in_progress := tip,
            tasks := (tasks p)[i := TrainModel mt force_retrain InBody]\<rparr>)"
| "task_step w te prep p i (TrainModel mt force_retrain InBody) =
     (case train_model_body (w mt) te (prep mt) (training_models p mt, stored p mt) mt
             force_retrain of
        (ms', result) \<Rightarrow>
          p\<lparr>training_in_progress := pop_in_progress (training_in_progress p) mt,
            training_models := (training_models p)(mt := fst ms'),
            stored := (stored p)(mt := snd ms'),
            tasks := (tasks p)[i := TrainModel mt force_retrain (Finished result)]\<rparr>)"
| "task_step w te prep p i (TrainModel mt force_retrain (Finished result)) = p"
| "task_step w te prep p i (RetrainModels mt BeforeTrain) =
     (if mt = ''payment_delay'' \<or> mt = ''payment_amount''
      then p\<lparr>tasks := (tasks p)[i := RetrainModels mt InTrain]\<rparr>
      else p\<lparr>tasks := (tasks p)[i := RetrainModels mt (AfterTrain None)]\<rparr>)"
| "task_step w te prep p i (RetrainModels mt InTrain) =
     (case train (w mt) (prep mt) (prediction_models p mt, stored p mt) None True of
        (ms', r) \<Rightarrow>
          p\<lparr>prediction_models := (prediction_models p)(mt := fst ms'),
            stored := (stored p)(mt := snd ms'),
            tasks := (tasks p)[i := RetrainModels mt (AfterTrain (raised r))]\<rparr>)"
| "task_step w te prep p i (RetrainModels mt (AfterTrain e)) = p"
| "task_step w te prep p i (EnsureModelTrained BeforeTrain) =
     (if \<not> is_trained (prediction_models p ''payment_delay'')
      then p\<lparr>tasks := (tasks p)[i := EnsureModelTrained InTrain]\<rparr>
      else p\<lparr>tasks := (tasks p)[i := EnsureModelTrained (AfterTrain None)]\<rparr>)"
| "task_step w te prep p i (EnsureModelTrained InTrain) =
     (case train (w ''payment_delay'') (prep ''payment_delay'')
             (prediction_models p ''payment_delay'', stored p ''payment_delay'') None False of
        (ms', r) \<Rightarrow>
          p\<lparr>prediction_models := (prediction_models p)(''payment_delay'' := fst ms'),
            stored := (stored p)(''payment_delay'' := snd ms'),
            tasks := (tasks p)[i := EnsureModelTrained (AfterTrain (raised r))]\<rparr>)"
| "task_step w te prep p i (EnsureModelTrained (AfterTrain e)) = p"

definition process_step ::
  "(string \<Rightarrow> 'e world) \<Rightarrow> training_env \<Rightarrow> (string \<Rightarrow> 'e prepare) \<Rightarrow> 'e process \<Rightarrow> nat
     \<Rightarrow> 'e process" where
  "process_step w te prep p i =
     (if i < length (tasks p) then task_step w te prep p i (tasks p ! i) else p)"

text \<open>A schedule is the list of the task numbers the event loop resumes, in order.\<close>

definition run_schedule ::
  "(string \<Rightarrow> 'e world) \<Rightarrow> training_env \<Rightarrow> (string \<Rightarrow> 'e prepare) \<Rightarrow> 'e process \<Rightarrow> nat list
     \<Rightarrow> 'e process" where
  "run_schedule w te prep p schedule = foldl (process_step w te prep) p schedule"

text \<open>
  A task has a training run of variant \<open>v\<close> in flight when it is inside the \<^verbatim>\<open>try\<close> block
  of \<^verbatim>\<open>_train_model\<close> for \<open>v\<close>, or awaits \<^verbatim>\<open>train\<close> on a manager of \<open>v\<close>.
\<close>

fun is_training :: "string \<Rightarrow> task \<Rightarrow> bool" where
  "is_training v (TrainModel mt force_retrain ph) = (mt = v \<and> ph = InBody)"
| "is_training v (RetrainModels mt ph) = (mt = v \<and> ph = InTrain)"
| "is_training v (EnsureModelTrained ph) = (v = ''payment_delay'' \<and> ph = InTrain)"

definition training_runs :: "string \<Rightarrow> task list \<Rightarrow> nat" where
  "training_runs v ts = length (filter (is_training v) ts)"

fun is_train_model :: "task \<Rightarrow> bool" where
  "is_train_model (TrainModel mt force_retrain ph) = True"
| "is_train_model t = False"

fun is_new_request :: "task \<Rightarrow> bool" where
  "is_new_request (TrainModel mt force_retrain AtGuard) = True"
| "is_new_request t = False"

section \<open>A concrete deployment\<close>

text \<open>
  A small deployment on which the operations above are run: a calendar, ten payment
  records of which five were paid late, an estimator that counts how often it was fitted
  and answers every row with the probabilities \<open>[0.6, 0.4]\<close>, a minimum training size of
  ten, and a database with two customers and one item.
\<close>

definition example_calendar :: calendar where
  "example_calendar t = \<lparr>dayofweek = nat (\<lfloor>t\<rfloor> mod 7), day_of_month = 1, month_of_year = 1\<rparr>"

definition late_row :: payment_row where
  "late_row = \<lparr>amount = Some 100, dueDate = Some 10, paymentDate = Some 15,
      creditLimit = Some 1000, outstandingAmount = Some 500,
      customerCategory = Some ''Premium'', paymentMethod = Some ''Card''\<rparr>"

definition punctual_row :: payment_row where
  "punctual_row = \<lparr>amount = Some 300, dueDate = Some 10, paymentDate = Some 9,
      creditLimit = Some 1000, outstandingAmount = Some 500,
      customerCategory = Some ''Premium'', paymentMethod = Some ''Card''\<rparr>"

definition payment_columns :: "string list" where
  "payment_columns = [''amount'', ''dueDate'', ''paymentDate'', ''creditLimit'',
      ''outstandingAmount'', ''customerCategory'', ''paymentMethod'']"

definition training_frame :: frame where
  "training_frame = \<lparr>columns = payment_columns,
      rows = [late_row, punctual_row, late_row, punctual_row, late_row, punctual_row,
              late_row, punctual_row, late_row, punctual_row]\<rparr>"

definition example_evaluation :: evaluation where
  "example_evaluation =
     \<lparr>ev_train_score = 1, ev_test_score = 1, ev_cv_mean = 1, ev_cv_std = 0,
      ev_metrics = [(''accuracy'', 1), (''precision'', 1), (''recall'', 1), (''f1_score'', 1)]\<rparr>"

definition example_ops :: "nat estimator_ops" where
  "example_ops =
     \<lparr>create_model = 0,
      train_test_split = (\<lambda>X y stratify.
         Inr (drop (length X div 5) X, take (length X div 5) X,
              drop (length y div 5) y, take (length y div 5) y)),
      fit = (\<lambda>e X y. Inr (Suc e)),
      evaluate = (\<lambda>e sp X y. Inr example_evaluation),
      has_predict_proba = (\<lambda>e. True),
      estimator_predict = (\<lambda>e X. Inr (map (\<lambda>x. 0) X)),
      estimator_predict_proba = (\<lambda>e X. Inr (map (\<lambda>x. [0.6, 0.4]) X)),
      feature_importances = (\<lambda>e. None)\<rparr>"

definition example_world :: "save_outcome \<Rightarrow> nat world" where
  "example_world outcome =
     \<lparr>MIN_TRAINING_DATA_SIZE = 10, clock = 0, load_training_data = Inr training_frame,
      save_result = outcome, ops = example_ops\<rparr>"

definition empty_storage :: "nat storage" where
  "empty_storage = \<lparr>model_file = Missing, metadata_file = Missing\<rparr>"

text \<open>The manager and the files as a run of \<^verbatim>\<open>train\<close> on this deployment leaves them.\<close>

definition example_metadata :: metadata where
  "example_metadata =
     \<lparr>md_model_name = ''payment_delay'', md_model_type = ''classification'', trained_at = 0,
      training_data_size = 10, feature_count = 14,
      train_score = 1, test_score = 1, cv_mean_score = 1, cv_std_score = 0,
      metrics = [(''accuracy'', 1), (''precision'', 1), (''recall'', 1), (''f1_score'', 1)],
      md_feature_columns = delay_feature_columns, md_target_column = Some ''is_delayed''\<rparr>"

definition trained_manager :: "nat manager" where
  "trained_manager =
     \<lparr>model_name = ''payment_delay'', model_type = ''classification'', model = Some (Suc 0),
      is_trained = True, feature_columns = delay_feature_columns,
      target_column = Some ''is_delayed'', model_metadata = Some example_metadata,
      scaler = Some \<lparr>sc_mean = [200, 1000, 500, 1 / 2, 10], sc_scale = [100, 1, 1, 1, 1]\<rparr>,
      label_encoders = [''customerCategory'' \<mapsto> [''Premium''], ''paymentMethod'' \<mapsto> [''Card'']]\<rparr>"

definition written_storage :: "nat storage" where
  "written_storage =
     \<lparr>model_file = Stored (Some (Suc 0)), metadata_file = Stored (Some example_metadata)\<rparr>"

text \<open>
  Customer \<open>C1\<close> has the category and payment method of the training records.
  Customer \<open>C2\<close> has no \<^verbatim>\<open>category\<close> key and customer \<open>C3\<close> no
  \<^verbatim>\<open>preferredPaymentMethod\<close> key, so that \<^verbatim>\<open>predict_payment_delay\<close> fills in
  \<^verbatim>\<open>'Regular'\<close> and \<^verbatim>\<open>'Bank Transfer'\<close>.
\<close>

definition premium_customer :: customer where
  "premium_customer =
     \<lparr>cust_creditLimit = Some 1000, cust_outstandingAmount = Some 900,
      cust_category = Some ''Premium'', cust_preferredPaymentMethod = Some ''Card'',
      cust_averageOrderValue = Some 300\<rparr>"

definition customer_without_category :: customer where
  "customer_without_category =
     \<lparr>cust_creditLimit = Some 1000, cust_outstandingAmount = Some 100,
      cust_category = None, cust_preferredPaymentMethod = Some ''Card'',
      cust_averageOrderValue = None\<rparr>"

definition customer_without_method :: customer where
  "customer_without_method =
     \<lparr>cust_creditLimit = Some 1000, cust_outstandingAmount = Some 100,
      cust_category = Some ''Premium'', cust_preferredPaymentMethod = None,
      cust_averageOrderValue = None\<rparr>"

definition example_item :: item where
  "example_item = \<lparr>stockLevel = Some 50, itemName = Some ''Widget''\<rparr>"

definition example_database :: database where
  "example_database =
     \<lparr>find_customer = [''C1'' \<mapsto> premium_customer, ''C2'' \<mapsto> customer_without_category,
                       ''C3'' \<mapsto> customer_without_method],
      find_payments = (\<lambda>cid. if cid = ''C1''
                              then [\<lparr>isLate = Some False\<rparr>, \<lparr>isLate = None\<rparr>] else []),
      find_item = [''I1'' \<mapsto> example_item],
      find_sales = (\<lambda>iid. if iid = ''I1''
                           then [\<lparr>quantity = Some 3, sale_date = Some 1\<rparr>,
                                 \<lparr>quantity = Some 1, sale_date = Some 2\<rparr>]
                           else [])\<rparr>"

definition example_training_env :: training_env where
  "example_training_env =
     \<lparr>MODEL_RETRAIN_INTERVAL_HOURS = 24, count_documents = (\<lambda>mt. Some 10),
      training_duration = 1\<rparr>"

text \<open>The assessment of customer \<open>C1\<close>.\<close>

definition premium_assessment :: risk_assessment where
  "premium_assessment =
     \<lparr>ra_customer_id = ''C1'', risk_score = 0.5, ra_risk_level = ''Medium'',
      risk_factors =
        [\<lparr>factor = ''High Credit Utilization'', factor_value = 0.9, impact = ''High''\<rparr>,
         \<lparr>factor = ''High Outstanding Amount'', factor_value = 900, impact = ''Medium''\<rparr>],
      recommendations =
        [''Monitor payment behavior closely'',
         ''Consider offering payment plan options'',
         ''Send proactive payment reminders'',
         ''Consider discussing credit limit adjustment''],
      assessment_date = 0\<rparr>"

section \<open>Reference descriptions used in the statements\<close>

text \<open>
  The results of the single-customer path on a list of customers, one after the other,
  each call starting from the state the previous one left; the predictions among them;
  and the bulk result as the specification describes it from the list of successes.
\<close>

fun single_results ::
  "'e world \<Rightarrow> calendar \<Rightarrow> database \<Rightarrow> int \<Rightarrow> 'e manager \<times> 'e storage \<Rightarrow> string list
     \<Rightarrow> (error + prediction) list" where
  "single_results w cal db days_ahead ms [] = []"
| "single_results w cal db days_ahead ms (cid # cids) =
     snd (predict_payment_delay w cal db ms cid None None days_ahead)
       # single_results w cal db days_ahead
           (fst (predict_payment_delay w cal db ms cid None None days_ahead)) cids"

fun successful :: "(error + prediction) list \<Rightarrow> prediction list" where
  "successful [] = []"
| "successful (Inl e # rs) = successful rs"
| "successful (Inr p # rs) = p # successful rs"

definition bulk_of_successes :: "nat \<Rightarrow> prediction list \<Rightarrow> bulk_result" where
  "bulk_of_successes n ps =
     \<lparr>predictions = ps,
      bulk_summary =
        \<lparr>total_customers = n,
         successful_predictions = length ps,
         high_risk_customers = length (filter (\<lambda>p. risk_level p = ''High'') ps),
         medium_risk_customers = length (filter (\<lambda>p. risk_level p = ''Medium'') ps),
         low_risk_customers =
           length (filter (\<lambda>p. risk_level p \<noteq> ''High'' \<and> risk_level p \<noteq> ''Medium'') ps),
         average_delay_probability =
           (if ps \<noteq> [] then sum_list (map delay_probability ps) / real (length ps) else 0)\<rparr>\<rparr>"

text \<open>
  The manager after it has served a prediction for customer \<open>C1\<close>, and that prediction.
\<close>

definition serving_manager :: "nat manager" where
  "serving_manager = trained_manager
     \<lparr>scaler := Some \<lparr>sc_mean = [300, 1000, 900, 9 / 10, 30], sc_scale = [1, 1, 1, 1, 1]\<rparr>\<rparr>"

definition premium_prediction :: prediction where
  "premium_prediction =
     \<lparr>customer_id = ''C1'', delay_probability = 0.4, predicted_delay_days = 0,
      risk_level = ''Medium'', confidence_score = 0.6, factors = []\<rparr>"

text \<open>
  The prepared training frame (feature vector and target of each row), the manager after
  \<^verbatim>\<open>prepare_features\<close> has run on it, the feature vector of the prediction frame of
  customer \<open>C1\<close>, and a deployment whose estimator is a regressor.
\<close>

definition training_matrix :: "(real list \<times> real) list" where
  "training_matrix =
     [([-1, 0, 0, 0, 3, 1, 1, 1, 0, 0, 0, 0, 1, 1], 1),
      ([1, 0, 0, 0, 3, 1, 1, 1, 0, 0, 0, 0, 1, 1], 0),
      ([-1, 0, 0, 0, 3, 1, 1, 1, 0, 0, 0, 0, 1, 1], 1),
      ([1, 0, 0, 0, 3, 1, 1, 1, 0, 0, 0, 0, 1, 1], 0),
      ([-1, 0, 0, 0, 3, 1, 1, 1, 0, 0, 0, 0, 1, 1], 1),
      ([1, 0, 0, 0, 3, 1, 1, 1, 0, 0, 0, 0, 1, 1], 0),
      ([-1, 0, 0, 0, 3, 1, 1, 1, 0, 0, 0, 0, 1, 1], 1),
      ([1, 0, 0, 0, 3, 1, 1, 1, 0, 0, 0, 0, 1, 1], 0),
      ([-1, 0, 0, 0, 3, 1, 1, 1, 0, 0, 0, 0, 1, 1], 1),
      ([1, 0, 0, 0, 3, 1, 1, 1, 0, 0, 0, 0, 1, 1], 0)]"

definition fitted_pipeline :: "nat manager" where
  "fitted_pipeline = PaymentDelayPredictor
     \<lparr>feature_columns := delay_feature_columns,
      scaler := Some \<lparr>sc_mean = [200, 1000, 500, 1 / 2, 10], sc_scale = [100, 1, 1, 1, 1]\<rparr>,
      label_encoders := [''customerCategory'' \<mapsto> [''Premium''], ''paymentMethod'' \<mapsto> [''Card'']]\<rparr>"

definition regressor_world :: "nat world" where
  "regressor_world = (example_world SaveOk)
     \<lparr>ops := example_ops\<lparr>has_predict_proba := (\<lambda>e. False)\<rparr>\<rparr>"

definition premium_vector :: "real list" where
  "premium_vector = [0, 0, 0, 0, 2, 1, 1, 1, 0, 0, 0, 0, 1, 1]"

text \<open>
  Processes of the concrete deployment: every model type is served by the deployment's
  world and feature preparation, all managers are untrained and no file exists. One
  process holds three calls of \<^verbatim>\<open>_train_model\<close>, the other a call of \<^verbatim>\<open>_train_model\<close> and
  a call of \<^verbatim>\<open>retrain_models\<close> for the same variant.
\<close>

definition example_worlds :: "string \<Rightarrow> nat world" where
  "example_worlds mt = example_world SaveOk"

definition example_prepares :: "string \<Rightarrow> nat prepare" where
  "example_prepares mt = delay_prepare 0 example_calendar"

definition example_process :: "task list \<Rightarrow> nat process" where
  "example_process ts =
     \<lparr>training_in_progress = Map.empty,
      training_models = (\<lambda>mt. PaymentDelayPredictor),
      prediction_models = (\<lambda>mt. PaymentDelayPredictor),
      stored = (\<lambda>mt. empty_storage),
      tasks = ts\<rparr>"

definition three_requests :: "task list" where
  "three_requests =
     [TrainModel ''payment_delay'' False AtGuard,
      TrainModel ''payment_delay'' True AtGuard,
      TrainModel ''payment_amount'' False AtGuard]"

definition request_and_retrain :: "task list" where
  "request_and_retrain =
     [TrainModel ''payment_delay'' False AtGuard, RetrainModels ''payment_delay'' BeforeTrain]"

definition example_success :: training_outcome where
  "example_success =
     Success 1 [(''accuracy'', 1), (''precision'', 1), (''recall'', 1), (''f1_score'', 1)] 10"

section \<open>Properties of persistence\<close>

text \<open>
  Claim C10. \<^verbatim>\<open>save_model\<close> on a manager whose \<^verbatim>\<open>is_trained\<close> is false raises
  (\<^verbatim>\<open>ValueError("Cannot save untrained model")\<close>) and writes nothing: whatever the
  file system would have answered, the estimator file and the metadata file are as they
  were before the call. Hence a call of \<^verbatim>\<open>save_model\<close> that changes a file is a call on
  a manager that is marked trained.
\<close>

theorem save_model_untrained:
  "(\<not> is_trained m \<longrightarrow> save_model outcome m st = (st, Inl CannotSaveUntrained)) \<and>
   (fst (save_model outcome m st) \<noteq> st \<longrightarrow> is_trained m)"
  by (auto simp: save_model_def)

theorem save_model_untrained_witness:
  "\<not> is_trained (PaymentDelayPredictor :: nat manager) \<and>
   save_model SaveOk (PaymentDelayPredictor :: nat manager) written_storage
     = (written_storage, Inl CannotSaveUntrained) \<and>
   fst (save_model SaveOk trained_manager empty_storage) = written_storage \<and>
   written_storage \<noteq> empty_storage \<and>
   is_trained trained_manager"
proof -
  have a: "\<not> is_trained (PaymentDelayPredictor :: nat manager)"
    by (simp add: PaymentDelayPredictor_def)
  have b: "fst (save_model SaveOk trained_manager empty_storage) = written_storage"
    by (simp add: save_model_def trained_manager_def empty_storage_def written_storage_def)
  have c: "written_storage \<noteq> empty_storage"
    by (simp add: empty_storage_def written_storage_def)
  from save_model_untrained [of "PaymentDelayPredictor :: nat manager" SaveOk written_storage] a
  have d: "save_model SaveOk (PaymentDelayPredictor :: nat manager) written_storage
     = (written_storage, Inl CannotSaveUntrained)"
    by blast
  from save_model_untrained [of trained_manager SaveOk empty_storage] b c
  have e: "is_trained trained_manager"
    by simp
  from a b c d e show ?thesis by blast
qed

section \<open>Properties of the customer risk score\<close>

lemma no_late_payment_ratio:
  assumes "\<forall>p \<in> set h. get_or (isLate p) False = False"
  shows "late_payment_ratio h = 0"
proof -
  have "filter (\<lambda>p. get_or (isLate p) False) h = []"
    using assms by (simp add: filter_empty_conv)
  then show ?thesis by (simp add: late_payment_ratio_def)
qed

text \<open>
  Claim C3, as the code has it. For a customer that exists, \<^verbatim>\<open>assess_customer_risk\<close>
  returns; its score is the sum, clamped at 1, of 0.3 if the credit limit is positive and
  the utilization exceeds 0.8, of 0.4 if the history of the last 50 payments is not empty
  and its late-payment ratio exceeds 0.2, and of 0.2 if the outstanding amount exceeds
  half of the credit limit. With a credit limit of 1000, 900 outstanding and no late
  payment, two of the rules fire (0.9 > 0.8 and 900 > 500): the score is 0.5 and the level
  is Medium, not 0.3 and Low.
\<close>

theorem assess_customer_risk_score:
  assumes "find_customer db cid = Some c"
  shows "\<exists>r. assess_customer_risk now db cid = Inr r \<and>
     risk_score r = min 1 (
        (if get_or (cust_creditLimit c) 0 > 0 \<and>
            get_or (cust_outstandingAmount c) 0 / get_or (cust_creditLimit c) 0 > 0.8
         then 0.3 else 0)
      + (if get_customer_payment_history db cid \<noteq> [] \<and>
            late_payment_ratio (get_customer_payment_history db cid) > 0.2
         then 0.4 else 0)
      + (if get_or (cust_outstandingAmount c) 0 > get_or (cust_creditLimit c) 0 * 0.5
         then 0.2 else 0)) \<and>
     (cust_creditLimit c = Some 1000 \<and> cust_outstandingAmount c = Some 900 \<and>
      (\<forall>p \<in> set (get_customer_payment_history db cid). get_or (isLate p) False = False)
      \<longrightarrow> risk_score r = 0.5 \<and> ra_risk_level r = ''Medium'')"
proof -
  have "(\<forall>p \<in> set (get_customer_payment_history db cid). get_or (isLate p) False = False)
      \<Longrightarrow> late_payment_ratio (get_customer_payment_history db cid) = 0"
    by (rule no_late_payment_ratio)
  then show ?thesis
    using assms
    by (auto simp: assess_customer_risk_def Let_def utilization_rule_def history_rule_def
        outstanding_rule_def get_or_def)
qed

theorem assess_customer_risk_score_witness:
  "find_customer example_database ''C1'' = Some premium_customer \<and>
   cust_creditLimit premium_customer = Some 1000 \<and>
   cust_outstandingAmount premium_customer = Some 900 \<and>
   get_customer_payment_history example_database ''C1'' =
     [\<lparr>isLate = Some False\<rparr>, \<lparr>isLate = None\<rparr>] \<and>
   (\<exists>r. assess_customer_risk 0 example_database ''C1'' = Inr r \<and>
        risk_score r = 0.5 \<and> ra_risk_level r = ''Medium'')"
proof -
  have a: "find_customer example_database ''C1'' = Some premium_customer"
    by (simp add: example_database_def)
  have b: "cust_creditLimit premium_customer = Some 1000"
    and c: "cust_outstandingAmount premium_customer = Some 900"
    by (simp_all add: premium_customer_def)
  have d: "\<forall>p \<in> set (get_customer_payment_history example_database ''C1'').
             get_or (isLate p) False = False"
    by (simp add: get_customer_payment_history_def example_database_def get_or_def)
  have e: "get_customer_payment_history example_database ''C1'' =
     [\<lparr>isLate = Some False\<rparr>, \<lparr>isLate = None\<rparr>]"
    by (simp add: get_customer_payment_history_def example_database_def)
  from assess_customer_risk_score [OF a, of 0] a b c d e show ?thesis by blast
qed

text \<open>
  The claim as stated fails on customer \<open>C1\<close> (credit limit 1000, 900 outstanding, two
  payments, none late): the assessment has score 0.5 and level Medium.
\<close>

theorem assess_customer_risk_counterexample:
  "assess_customer_risk 0 example_database ''C1'' = Inr premium_assessment \<and>
   risk_score premium_assessment = 0.5 \<and>
   risk_score premium_assessment \<noteq> 0.3 \<and>
   ra_risk_level premium_assessment = ''Medium'' \<and>
   ra_risk_level premium_assessment \<noteq> ''Low''"
  by (simp add: assess_customer_risk_def Let_def utilization_rule_def history_rule_def
      outstanding_rule_def get_or_def example_database_def premium_customer_def
      get_customer_payment_history_def late_payment_ratio_def
      generate_risk_recommendations_def premium_assessment_def)

section \<open>Properties of the inventory forecast\<close>

lemma forecast_item_reorder:
  "recommended_quantity (reorder (forecast_item now cal db days_ahead season iid it)) =
     max 0 (of_int (sum_list (map predicted_demand
        (forecast_data (forecast_item now cal db days_ahead season iid it))))
        - current_stock (forecast_item now cal db days_ahead season iid it)) \<and>
   (should_reorder (reorder (forecast_item now cal db days_ahead season iid it)) \<longleftrightarrow>
      recommended_quantity (reorder (forecast_item now cal db days_ahead season iid it)) > 0)"
  by (simp add: forecast_item_def Let_def)

lemma forecast_members:
  "f \<in> set (forecast_inventory_demand now cal db ids days_ahead season) \<Longrightarrow>
   \<exists>iid it. find_item db iid = Some it \<and> f = forecast_item now cal db days_ahead season iid it"
  by (induction ids) (auto split: option.splits)

lemma flat_forecast_sum:
  "sum_list (map (predicted_demand \<circ> forecast_day now cal False avg) ds) =
     int (length ds) * max 0 (py_int avg)"
  by (induction ds) (simp_all add: forecast_day_def Let_def algebra_simps)

lemma forecast_item_flat_total:
  "sum_list (map predicted_demand (forecast_data (forecast_item now cal db d False iid it))) =
     int (length [1..d]) *
       max 0 (py_int (calculate_average_daily_demand now (get_item_sales_history db iid)))"
  by (simp add: forecast_item_def Let_def flat_forecast_sum del: upto.simps)

text \<open>
  Claim C8. Every item of a forecast has
  \<open>recommended_quantity = max 0 (sum of the daily predicted demand - current_stock)\<close> and
  \<open>should_reorder\<close> exactly when that quantity is positive. With a stock of 50, an average
  daily demand of 2, 30 days and no seasonality the total predicted demand is 60, the
  recommended quantity 10 and \<open>should_reorder\<close> holds. Without sales history the average
  daily demand is 1.
\<close>

theorem reorder_recommendation:
  "(\<forall>f \<in> set (forecast_inventory_demand now cal db ids days_ahead season).
      recommended_quantity (reorder f) =
        max 0 (of_int (sum_list (map predicted_demand (forecast_data f))) - current_stock f) \<and>
      (should_reorder (reorder f) \<longleftrightarrow> recommended_quantity (reorder f) > 0)) \<and>
   (stockLevel it = Some 50 \<and>
    calculate_average_daily_demand now (get_item_sales_history db iid) = 2 \<longrightarrow>
      sum_list (map predicted_demand
        (forecast_data (forecast_item now cal db 30 False iid it))) = 60 \<and>
      recommended_quantity (reorder (forecast_item now cal db 30 False iid it)) = 10 \<and>
      should_reorder (reorder (forecast_item now cal db 30 False iid it))) \<and>
   calculate_average_daily_demand now [] = 1"
proof (intro conjI ballI impI)
  fix f assume "f \<in> set (forecast_inventory_demand now cal db ids days_ahead season)"
  then obtain iid' it' where f: "f = forecast_item now cal db days_ahead season iid' it'"
    using forecast_members by blast
  show "recommended_quantity (reorder f) =
        max 0 (of_int (sum_list (map predicted_demand (forecast_data f))) - current_stock f)"
    unfolding f using forecast_item_reorder by blast
  show "should_reorder (reorder f) \<longleftrightarrow> recommended_quantity (reorder f) > 0"
    unfolding f using forecast_item_reorder by blast
next
  assume h: "stockLevel it = Some 50 \<and>
    calculate_average_daily_demand now (get_item_sales_history db iid) = 2"
  have s: "sum_list (map predicted_demand
      (forecast_data (forecast_item now cal db 30 False iid it))) = 60"
    using h by (simp add: forecast_item_flat_total py_int_def)
  show "sum_list (map predicted_demand
      (forecast_data (forecast_item now cal db 30 False iid it))) = 60"
    by (rule s)
  have r: "recommended_quantity (reorder (forecast_item now cal db 30 False iid it)) = 10"
    using h s forecast_item_reorder [of now cal db 30 False iid it]
    by (simp add: forecast_item_def Let_def get_or_def)
  show "recommended_quantity (reorder (forecast_item now cal db 30 False iid it)) = 10"
    by (rule r)
  show "should_reorder (reorder (forecast_item now cal db 30 False iid it))"
    using r forecast_item_reorder [of now cal db 30 False iid it] by simp
next
  show "calculate_average_daily_demand now [] = 1"
    by (simp add: calculate_average_daily_demand_def)
qed

theorem reorder_recommendation_witness:
  "stockLevel example_item = Some 50 \<and>
   calculate_average_daily_demand 0 (get_item_sales_history example_database ''I1'') = 2 \<and>
   forecast_inventory_demand 0 example_calendar example_database [''I0'', ''I1''] 30 False =
     [forecast_item 0 example_calendar example_database 30 False ''I1'' example_item] \<and>
   sum_list (map predicted_demand (forecast_data
     (forecast_item 0 example_calendar example_database 30 False ''I1'' example_item))) = 60 \<and>
   recommended_quantity (reorder
     (forecast_item 0 example_calendar example_database 30 False ''I1'' example_item)) = 10 \<and>
   should_reorder (reorder
     (forecast_item 0 example_calendar example_database 30 False ''I1'' example_item))"
proof -
  have a: "stockLevel example_item = Some 50"
    by (simp add: example_item_def)
  have b: "calculate_average_daily_demand 0 (get_item_sales_history example_database ''I1'') = 2"
    by (simp add: calculate_average_daily_demand_def get_item_sales_history_def
        example_database_def get_or_def Let_def)
  have c: "forecast_inventory_demand 0 example_calendar example_database [''I0'', ''I1''] 30 False =
     [forecast_item 0 example_calendar example_database 30 False ''I1'' example_item]"
    by (simp add: example_database_def)
  note t = reorder_recommendation [of 0 example_calendar example_database "[''I0'', ''I1'']"
             30 False example_item "''I1''"]
  from t a b have e: "sum_list (map predicted_demand (forecast_data
     (forecast_item 0 example_calendar example_database 30 False ''I1'' example_item))) = 60 \<and>
   recommended_quantity (reorder
     (forecast_item 0 example_calendar example_database 30 False ''I1'' example_item)) = 10 \<and>
   should_reorder (reorder
     (forecast_item 0 example_calendar example_database 30 False ''I1'' example_item))"
    by blast
  from a b c e show ?thesis by blast
qed

section \<open>Properties of the payment delay prediction\<close>

subsection \<open>The concrete deployment, evaluated\<close>

lemmas prep_defs = prepare_features_def encode_column_def encoder_fit_transform_def encoder_fit_def
  encoder_transform_def base_features_def to_numeric_def due_field_def fillna_unknown_def set_codes_def
  scaler_fit_def scaler_transform_def numerical_columns_def numerical_features_def
  column_mean_def column_var_def column_scale_def quarter_of_def

lemma prepare_premium:
  "prepare_features 0 example_calendar trained_manager (prediction_data 0 premium_customer None None 30)
   = (serving_manager,
      Inr [\<lparr>payment_amount = 0, credit_limit = 0, outstanding_amount = 0, credit_utilization = 0,
            due_day_of_week = 2, due_day_of_month = 1, due_month = 1, due_quarter = 1,
            days_until_due = 0, customer_category_encoded = 0, payment_method_encoded = 0,
            avg_delay_days = 0, payment_frequency = 1, total_payments = 1, is_delayed = 0\<rparr>])"
  by (simp add: prep_defs prediction_data_def premium_customer_def trained_manager_def serving_manager_def
       get_or_def example_calendar_def Let_def)

lemma prepare_premium_again:
  "prepare_features 0 example_calendar serving_manager (prediction_data 0 premium_customer None None 30)
   = (serving_manager,
      Inr [\<lparr>payment_amount = 0, credit_limit = 0, outstanding_amount = 0, credit_utilization = 0,
            due_day_of_week = 2, due_day_of_month = 1, due_month = 1, due_quarter = 1,
            days_until_due = 0, customer_category_encoded = 0, payment_method_encoded = 0,
            avg_delay_days = 0, payment_frequency = 1, total_payments = 1, is_delayed = 0\<rparr>])"
  by (simp add: prep_defs prediction_data_def premium_customer_def trained_manager_def serving_manager_def
       get_or_def example_calendar_def Let_def)

lemma trained_flags:
  "is_trained trained_manager" "is_trained serving_manager"
  "model trained_manager = Some (Suc 0)" "model serving_manager = Some (Suc 0)"
  by (simp_all add: trained_manager_def serving_manager_def)

lemma predict_premium:
  "predict_payment_delay (example_world SaveOk) example_calendar example_database
      (trained_manager, written_storage) ''C1'' None None 30
   = ((serving_manager, written_storage), Inr premium_prediction)"
  by (simp add: predict_payment_delay_def Let_def trained_flags example_world_def example_database_def
      predict_proba_def predict_def lazy_load_def is_classification_def delay_prepare_def
      prepare_premium prepare_premium_again example_ops_def proba_0_1_def first_prediction_def
      get_feature_importance_def calculate_risk_level_def premium_prediction_def)

lemma predict_nobody:
  "predict_payment_delay (example_world SaveOk) example_calendar example_database
      (serving_manager, written_storage) ''nobody'' None None 30
   = ((serving_manager, written_storage), Inl (CustomerNotFound ''nobody''))"
  by (simp add: predict_payment_delay_def Let_def trained_flags example_database_def)

lemma predict_payment_delay_result:
  assumes "snd (predict_payment_delay w cal db ms cid amt due_date days_ahead) = Inr r"
  shows "risk_level r = calculate_risk_level (delay_probability r) \<and>
     confidence_score r = max (delay_probability r) (1 - delay_probability r)"
  using assms
  by (auto simp: predict_payment_delay_def Let_def
      split: prod.splits sum.splits option.splits if_splits)

subsection \<open>Bulk prediction\<close>

lemma bulk_loop_acc:
  "bulk_loop w cal db d ms ids (ps, hi, me, lo) =
     (fst (bulk_loop w cal db d ms ids ([], 0, 0, 0)),
      ps @ successful (single_results w cal db d ms ids),
      hi + length (filter (\<lambda>p. risk_level p = ''High'') (successful (single_results w cal db d ms ids))),
      me + length (filter (\<lambda>p. risk_level p = ''Medium'') (successful (single_results w cal db d ms ids))),
      lo + length (filter (\<lambda>p. risk_level p \<noteq> ''High'' \<and> risk_level p \<noteq> ''Medium'')
                     (successful (single_results w cal db d ms ids))))"
proof (induction ids arbitrary: ms ps hi me lo)
  case Nil
  then show ?case by simp
next
  case (Cons cid cids)
  obtain ms' r where s: "predict_payment_delay w cal db ms cid None None d = (ms', r)"
    by (cases "predict_payment_delay w cal db ms cid None None d")
  show ?case
  proof (cases r)
    case (Inl e)
    then show ?thesis
      using s Cons.IH [of ms' ps hi me lo] Cons.IH [of ms' "[]" 0 0 0]
      by simp
  next
    case (Inr p)
    then show ?thesis
      using s Cons.IH [of ms' "ps @ [p]" "hi + 1" me lo] Cons.IH [of ms' "ps @ [p]" hi "me + 1" lo]
        Cons.IH [of ms' "ps @ [p]" hi me "lo + 1"]
        Cons.IH [of ms' "[p]" 1 0 0] Cons.IH [of ms' "[p]" 0 1 0] Cons.IH [of ms' "[p]" 0 0 1]
      by simp
  qed
qed


lemma bulk_result_of_successes:
  "snd (predict_payment_delay_bulk w cal db ms ids d) =
     bulk_of_successes (length ids) (successful (single_results w cal db d ms ids))"
  by (subst predict_payment_delay_bulk_def, subst bulk_loop_acc)
     (simp add: bulk_of_successes_def)

lemma successful_risk_levels:
  "p \<in> set (successful (single_results w cal db d ms ids)) \<Longrightarrow>
   risk_level p = calculate_risk_level (delay_probability p)"
proof (induction ids arbitrary: ms)
  case Nil
  then show ?case by simp
next
  case (Cons cid cids)
  obtain a b r where s: "predict_payment_delay w cal db ms cid None None d = ((a, b), r)"
    by (metis prod.collapse)
  show ?case
  proof (cases r)
    case (Inl e)
    with Cons.prems s Cons.IH [of "(a, b)"] show ?thesis by simp
  next
    case (Inr q)
    then have "snd (predict_payment_delay w cal db ms cid None None d) = Inr q"
      using s by simp
    from predict_payment_delay_result [OF this] Inr Cons.prems s Cons.IH [of "(a, b)"]
    show ?thesis by auto
  qed
qed

lemma calculate_risk_level_cases:
  "calculate_risk_level x = ''High'' \<or> calculate_risk_level x = ''Medium'' \<or>
   calculate_risk_level x = ''Low''"
  by (simp add: calculate_risk_level_def)

text \<open>
  Claim C7. For every list of customer ids, \<^verbatim>\<open>predict_payment_delay_bulk\<close> returns:
  its predictions are the successful results of the single-customer path, in order, the
  failing ids being skipped; \<open>total_customers\<close> is the length of the input,
  \<open>successful_predictions\<close> the number of predictions, the three tier counts count the
  predictions of each tier, and \<open>average_delay_probability\<close> is their mean probability,
  0 when there is none. On \<open>[valid, invalid]\<close>, where the single-customer path succeeds on
  the first id and fails on the second, there is exactly one prediction,
  \<open>total_customers = 2\<close> and \<open>successful_predictions = 1\<close>.
\<close>

theorem bulk_summary_over_successes:
  "predictions (snd (predict_payment_delay_bulk w cal db ms ids d))
     = successful (single_results w cal db d ms ids) \<and>
   total_customers (bulk_summary (snd (predict_payment_delay_bulk w cal db ms ids d)))
     = length ids \<and>
   successful_predictions (bulk_summary (snd (predict_payment_delay_bulk w cal db ms ids d)))
     = length (predictions (snd (predict_payment_delay_bulk w cal db ms ids d))) \<and>
   high_risk_customers (bulk_summary (snd (predict_payment_delay_bulk w cal db ms ids d)))
     = length (filter (\<lambda>p. risk_level p = ''High'')
         (predictions (snd (predict_payment_delay_bulk w cal db ms ids d)))) \<and>
   medium_risk_customers (bulk_summary (snd (predict_payment_delay_bulk w cal db ms ids d)))
     = length (filter (\<lambda>p. risk_level p = ''Medium'')
         (predictions (snd (predict_payment_delay_bulk w cal db ms ids d)))) \<and>
   low_risk_customers (bulk_summary (snd (predict_payment_delay_bulk w cal db ms ids d)))
     = length (filter (\<lambda>p. risk_level p = ''Low'')
         (predictions (snd (predict_payment_delay_bulk w cal db ms ids d)))) \<and>
   average_delay_probability (bulk_summary (snd (predict_payment_delay_bulk w cal db ms ids d)))
     = (if predictions (snd (predict_payment_delay_bulk w cal db ms ids d)) = [] then 0
        else sum_list (map delay_probability
               (predictions (snd (predict_payment_delay_bulk w cal db ms ids d))))
             / real (length (predictions (snd (predict_payment_delay_bulk w cal db ms ids d))))) \<and>
   (snd (predict_payment_delay w cal db ms valid None None d) = Inr p \<and>
    snd (predict_payment_delay w cal db
           (fst (predict_payment_delay w cal db ms valid None None d)) invalid None None d) = Inl e
    \<longrightarrow> predictions (snd (predict_payment_delay_bulk w cal db ms [valid, invalid] d)) = [p] \<and>
        total_customers (bulk_summary
          (snd (predict_payment_delay_bulk w cal db ms [valid, invalid] d))) = 2 \<and>
        successful_predictions (bulk_summary
          (snd (predict_payment_delay_bulk w cal db ms [valid, invalid] d))) = 1)"
proof -
  let ?S = "successful (single_results w cal db d ms ids)"
  have b: "snd (predict_payment_delay_bulk w cal db ms ids d) = bulk_of_successes (length ids) ?S"
    by (rule bulk_result_of_successes)
  have low: "filter (\<lambda>p. risk_level p \<noteq> ''High'' \<and> risk_level p \<noteq> ''Medium'') ?S
      = filter (\<lambda>p. risk_level p = ''Low'') ?S"
    by (rule filter_cong [OF refl]) (use successful_risk_levels calculate_risk_level_cases in fastforce)
  have general: "predictions (bulk_of_successes (length ids) ?S) = ?S"
    "total_customers (bulk_summary (bulk_of_successes (length ids) ?S)) = length ids"
    "successful_predictions (bulk_summary (bulk_of_successes (length ids) ?S)) = length ?S"
    "high_risk_customers (bulk_summary (bulk_of_successes (length ids) ?S))
       = length (filter (\<lambda>p. risk_level p = ''High'') ?S)"
    "medium_risk_customers (bulk_summary (bulk_of_successes (length ids) ?S))
       = length (filter (\<lambda>p. risk_level p = ''Medium'') ?S)"
    "low_risk_customers (bulk_summary (bulk_of_successes (length ids) ?S))
       = length (filter (\<lambda>p. risk_level p = ''Low'') ?S)"
    "average_delay_probability (bulk_summary (bulk_of_successes (length ids) ?S))
       = (if ?S = [] then 0 else sum_list (map delay_probability ?S) / real (length ?S))"
    by (simp_all add: bulk_of_successes_def low)
  have pair: "predictions (snd (predict_payment_delay_bulk w cal db ms [valid, invalid] d)) = [p] \<and>
        total_customers (bulk_summary
          (snd (predict_payment_delay_bulk w cal db ms [valid, invalid] d))) = 2 \<and>
        successful_predictions (bulk_summary
          (snd (predict_payment_delay_bulk w cal db ms [valid, invalid] d))) = 1"
    if "snd (predict_payment_delay w cal db ms valid None None d) = Inr p \<and>
        snd (predict_payment_delay w cal db
           (fst (predict_payment_delay w cal db ms valid None None d)) invalid None None d) = Inl e"
    using that
    by (simp add: bulk_result_of_successes [of w cal db ms "[valid, invalid]" d]
        bulk_of_successes_def)
  show ?thesis
    unfolding b using general pair by simp
qed

theorem bulk_summary_over_successes_witness:
  "snd (predict_payment_delay (example_world SaveOk) example_calendar example_database
          (trained_manager, written_storage) ''C1'' None None 30) = Inr premium_prediction \<and>
   snd (predict_payment_delay (example_world SaveOk) example_calendar example_database
          (fst (predict_payment_delay (example_world SaveOk) example_calendar example_database
                 (trained_manager, written_storage) ''C1'' None None 30))
          ''nobody'' None None 30) = Inl (CustomerNotFound ''nobody'') \<and>
   predictions (snd (predict_payment_delay_bulk (example_world SaveOk) example_calendar
      example_database (trained_manager, written_storage) [''C1'', ''nobody''] 30))
     = [premium_prediction] \<and>
   total_customers (bulk_summary (snd (predict_payment_delay_bulk (example_world SaveOk)
      example_calendar example_database (trained_manager, written_storage)
      [''C1'', ''nobody''] 30))) = 2 \<and>
   successful_predictions (bulk_summary (snd (predict_payment_delay_bulk (example_world SaveOk)
      example_calendar example_database (trained_manager, written_storage)
      [''C1'', ''nobody''] 30))) = 1"
proof -
  have a: "snd (predict_payment_delay (example_world SaveOk) example_calendar example_database
          (trained_manager, written_storage) ''C1'' None None 30) = Inr premium_prediction"
    by (simp add: predict_premium)
  have b: "snd (predict_payment_delay (example_world SaveOk) example_calendar example_database
          (fst (predict_payment_delay (example_world SaveOk) example_calendar example_database
                 (trained_manager, written_storage) ''C1'' None None 30))
          ''nobody'' None None 30) = Inl (CustomerNotFound ''nobody'')"
    by (simp add: predict_premium predict_nobody)
  note t = bulk_summary_over_successes [of "example_world SaveOk" example_calendar
      example_database "(trained_manager, written_storage)" "[''C1'', ''nobody'']" 30
      "''C1''" premium_prediction "''nobody''" "CustomerNotFound ''nobody''"]
  from t a b show ?thesis by blast
qed


section \<open>Properties of training\<close>

lemma sqrt_10000: "sqrt 10000 = 100"
  by (rule real_sqrt_unique) simp_all

lemmas example_defs = training_frame_def payment_columns_def late_row_def punctual_row_def
  example_calendar_def

lemma prepare_training_frame:
  "delay_prepare 0 example_calendar (PaymentDelayPredictor :: nat manager) training_frame
     = (fitted_pipeline, Inr training_matrix)"
  by (simp add: delay_prepare_def prep_defs example_defs PaymentDelayPredictor_def sqrt_10000
      Let_def fitted_pipeline_def training_matrix_def feature_vector_def)


text \<open>
  Claim C1, as the code has it. \<^verbatim>\<open>train\<close> marks the manager trained before it persists:
  once the data is loaded and large enough and feature preparation, split, fit and
  evaluation have succeeded, the manager holds the new estimator and metadata with
  \<^verbatim>\<open>is_trained = True\<close>, whatever the persistence step does next (\<^verbatim>\<open>save_model\<close> refuses
  a manager that is not marked trained). \<^verbatim>\<open>train\<close> returns normally only when both files
  have been written. When a write fails, \<^verbatim>\<open>train\<close> raises and the manager stays marked
  trained; the files are untouched only if the failure comes before the estimator file is
  opened.
\<close>

theorem train_marks_trained_before_saving:
  assumes "(case data of None \<Rightarrow> load_training_data w | Some d \<Rightarrow> Inr d) = Inr d"
    and "MIN_TRAINING_DATA_SIZE w \<le> length (rows d)"
    and "prep m d = (m1, Inr xy)"
    and "train_test_split (ops w) (map fst xy) (map snd xy) (is_classification (ops w) m1) = Inr sp"
    and "fit (ops w)
           (case model m1 of None \<Rightarrow> create_model (ops w)
            | Some e \<Rightarrow> if retrain then create_model (ops w) else e)
           (fst sp) (fst (snd (snd sp))) = Inr est"
    and "evaluate (ops w) est sp (map fst xy) (map snd xy) = Inr ev"
    and "md = make_metadata w (m1\<lparr>model := Some est\<rparr>) (length (rows d)) ev"
    and "m' = m1\<lparr>model := Some est, model_metadata := Some md, is_trained := True\<rparr>"
  shows "is_trained m' \<and>
     train w prep (m, st) data retrain =
       (case save_result w of
          SaveOk \<Rightarrow>
            ((m', st\<lparr>model_file := Stored (Some est), metadata_file := Stored (Some md)\<rparr>), Inr md)
        | DumpFailsAtOpen \<Rightarrow> ((m', st), Inl PersistenceFailure)
        | DumpFailsMidWrite \<Rightarrow> ((m', st\<lparr>model_file := Damaged\<rparr>), Inl PersistenceFailure)
        | MetadataFailsAtOpen \<Rightarrow>
            ((m', st\<lparr>model_file := Stored (Some est)\<rparr>), Inl PersistenceFailure)
        | MetadataFailsMidWrite \<Rightarrow>
            ((m', st\<lparr>model_file := Stored (Some est), metadata_file := Damaged\<rparr>),
             Inl PersistenceFailure))"
  using assms
  by (cases "save_result w"; cases data) (simp_all add: train_def Let_def save_model_def)


lemma example_world_simps:
  "MIN_TRAINING_DATA_SIZE (example_world outcome) = 10"
  "clock (example_world outcome) = 0"
  "load_training_data (example_world outcome) = Inr training_frame"
  "save_result (example_world outcome) = outcome"
  "ops (example_world outcome) = example_ops"
  by (simp_all add: example_world_def)

lemma example_ops_simps:
  "create_model example_ops = 0"
  "train_test_split example_ops X y s =
     Inr (drop (length X div 5) X, take (length X div 5) X,
          drop (length y div 5) y, take (length y div 5) y)"
  "fit example_ops e X y = Inr (Suc e)"
  "evaluate example_ops e sp X y = Inr example_evaluation"
  "has_predict_proba example_ops e = True"
  "estimator_predict example_ops e X = Inr (map (\<lambda>x. 0) X)"
  "estimator_predict_proba example_ops e X = Inr (map (\<lambda>x. [0.6, 0.4]) X)"
  "feature_importances example_ops e = None"
  by (simp_all add: example_ops_def)

lemma fitted_pipeline_simps:
  "model fitted_pipeline = None"
  "fitted_pipeline\<lparr>model := Some (Suc 0), model_metadata := Some example_metadata,
      is_trained := True\<rparr> = trained_manager"
  "make_metadata (example_world outcome) (fitted_pipeline\<lparr>model := Some (Suc 0)\<rparr>) 10
     example_evaluation = example_metadata"
  by (simp_all add: fitted_pipeline_def PaymentDelayPredictor_def trained_manager_def
      make_metadata_def example_metadata_def example_evaluation_def example_world_def
      delay_feature_columns_def)

lemma training_frame_length: "length (rows training_frame) = 10"
  by (simp add: training_frame_def)

lemma train_example:
  "train (example_world outcome) (delay_prepare 0 example_calendar)
      (PaymentDelayPredictor, empty_storage) None False
   = ((trained_manager, fst (save_model outcome trained_manager empty_storage)),
      (case outcome of SaveOk \<Rightarrow> Inr example_metadata | _ \<Rightarrow> Inl PersistenceFailure))"
  by (simp add: train_def Let_def example_world_simps example_ops_simps training_frame_length
      prepare_training_frame is_classification_def fitted_pipeline_simps save_model_def
      trained_flags split: save_outcome.splits)

lemma train_example_ok:
  "train (example_world SaveOk) (delay_prepare 0 example_calendar)
      (PaymentDelayPredictor, empty_storage) None False
   = ((trained_manager, written_storage), Inr example_metadata)"
  unfolding train_example
  by (simp add: save_model_def trained_flags empty_storage_def written_storage_def
      trained_manager_def)


text \<open>
  The claim as stated fails on the concrete deployment when the estimator file cannot be
  opened: \<^verbatim>\<open>train\<close> raises, nothing has been written, and the manager that was untrained
  is now marked trained.
\<close>

theorem train_marks_trained_before_saving_counterexample:
  "train (example_world DumpFailsAtOpen) (delay_prepare 0 example_calendar)
      (PaymentDelayPredictor, empty_storage) None False
     = ((trained_manager, empty_storage), Inl PersistenceFailure) \<and>
   \<not> is_trained (PaymentDelayPredictor :: nat manager) \<and>
   is_trained trained_manager \<and>
   model_file empty_storage = Missing \<and>
   metadata_file empty_storage = Missing"
  unfolding train_example
  by (simp add: save_model_def trained_flags PaymentDelayPredictor_def empty_storage_def)

theorem train_marks_trained_before_saving_witness:
  "(case None of None \<Rightarrow> load_training_data (example_world DumpFailsAtOpen) | Some d \<Rightarrow> Inr d)
      = Inr training_frame \<and>
   MIN_TRAINING_DATA_SIZE (example_world DumpFailsAtOpen) \<le> length (rows training_frame) \<and>
   delay_prepare 0 example_calendar (PaymentDelayPredictor :: nat manager) training_frame
      = (fitted_pipeline, Inr training_matrix) \<and>
   train_test_split (ops (example_world DumpFailsAtOpen)) (map fst training_matrix)
        (map snd training_matrix) (is_classification (ops (example_world DumpFailsAtOpen))
        fitted_pipeline)
      = Inr (drop 2 (map fst training_matrix), take 2 (map fst training_matrix),
             drop 2 (map snd training_matrix), take 2 (map snd training_matrix)) \<and>
   fit (ops (example_world DumpFailsAtOpen))
        (case model fitted_pipeline of None \<Rightarrow> create_model (ops (example_world DumpFailsAtOpen))
         | Some e \<Rightarrow> if False then create_model (ops (example_world DumpFailsAtOpen)) else e)
        (drop 2 (map fst training_matrix)) (drop 2 (map snd training_matrix)) = Inr (Suc 0) \<and>
   evaluate (ops (example_world DumpFailsAtOpen)) (Suc 0)
        (drop 2 (map fst training_matrix), take 2 (map fst training_matrix),
         drop 2 (map snd training_matrix), take 2 (map snd training_matrix))
        (map fst training_matrix) (map snd training_matrix) = Inr example_evaluation \<and>
   is_trained trained_manager \<and>
   train (example_world DumpFailsAtOpen) (delay_prepare 0 example_calendar)
      (PaymentDelayPredictor, empty_storage) None False
     = ((trained_manager, empty_storage), Inl PersistenceFailure)"
proof -
  let ?w = "example_world DumpFailsAtOpen"
  let ?sp = "(drop 2 (map fst training_matrix), take 2 (map fst training_matrix),
             drop 2 (map snd training_matrix), take 2 (map snd training_matrix))"
  have a: "(case None of None \<Rightarrow> load_training_data ?w | Some d \<Rightarrow> Inr d) = Inr training_frame"
    by (simp add: example_world_simps)
  have b: "MIN_TRAINING_DATA_SIZE ?w \<le> length (rows training_frame)"
    by (simp add: example_world_simps training_frame_length)
  have c: "delay_prepare 0 example_calendar (PaymentDelayPredictor :: nat manager) training_frame
      = (fitted_pipeline, Inr training_matrix)"
    by (rule prepare_training_frame)
  have d: "train_test_split (ops ?w) (map fst training_matrix) (map snd training_matrix)
        (is_classification (ops ?w) fitted_pipeline) = Inr ?sp"
    by (simp add: example_world_simps example_ops_simps training_matrix_def)
  have e: "fit (ops ?w)
        (case model fitted_pipeline of None \<Rightarrow> create_model (ops ?w)
         | Some e \<Rightarrow> if False then create_model (ops ?w) else e)
        (fst ?sp) (fst (snd (snd ?sp))) = Inr (Suc 0)"
    by (simp add: example_world_simps example_ops_simps fitted_pipeline_simps)
  have f: "evaluate (ops ?w) (Suc 0) ?sp (map fst training_matrix) (map snd training_matrix)
      = Inr example_evaluation"
    by (simp add: example_world_simps example_ops_simps)
  have g: "example_metadata = make_metadata ?w (fitted_pipeline\<lparr>model := Some (Suc 0)\<rparr>)
      (length (rows training_frame)) example_evaluation"
    by (simp add: fitted_pipeline_simps training_frame_length)
  have h: "trained_manager = fitted_pipeline\<lparr>model := Some (Suc 0),
      model_metadata := Some example_metadata, is_trained := True\<rparr>"
    by (simp add: fitted_pipeline_simps)
  note t = train_marks_trained_before_saving
    [where data = None and w = "?w" and d = training_frame
       and prep = "delay_prepare 0 example_calendar"
       and m = "PaymentDelayPredictor :: nat manager" and ?m1.0 = fitted_pipeline
       and xy = training_matrix and sp = "?sp" and retrain = False and est = "Suc 0"
       and ev = example_evaluation and md = example_metadata and m' = trained_manager
       and st = empty_storage]
  from t [OF a b c d e f g h]
  have "is_trained trained_manager \<and>
     train ?w (delay_prepare 0 example_calendar) (PaymentDelayPredictor, empty_storage) None False
       = ((trained_manager, empty_storage), Inl PersistenceFailure)"
    by (simp add: example_world_simps)
  with a b c d e f show ?thesis by simp
qed

section \<open>Properties of the categorical encoders\<close>

lemma set_numerical_codes:
  "customer_category_encoded (set_numerical f xs) = customer_category_encoded f"
  "payment_method_encoded (set_numerical f xs) = payment_method_encoded f"
  by (induction f xs rule: set_numerical.induct) simp_all

lemma codes_of_zip:
  "length fs = length cs \<Longrightarrow> length cs = length ps \<Longrightarrow>
   map (\<lambda>x. customer_category_encoded (set_codes x)) (zip fs (zip cs ps)) = cs \<and>
   map (\<lambda>x. payment_method_encoded (set_codes x)) (zip fs (zip cs ps)) = ps"
  by (induction fs cs ps rule: list_induct3) (simp_all add: set_codes_def)

lemma encoder_transform_seen:
  "set ys \<subseteq> set classes \<Longrightarrow>
   encoder_transform classes ys = Inr (map (\<lambda>y. real (index_of classes y)) ys)"
  by (auto simp: encoder_transform_def Let_def filter_empty_conv)

lemma encoder_transform_unseen:
  "\<not> set ys \<subseteq> set classes \<Longrightarrow>
   encoder_transform classes ys =
     Inl (UnseenLabels (sort (remdups (filter (\<lambda>y. y \<notin> set classes) ys))))"
  by (auto simp: encoder_transform_def Let_def filter_empty_conv)

text \<open>
  Claim C2, as the code has it. Once both encoders are fitted, \<^verbatim>\<open>prepare_features\<close> on a
  frame with rows that has both categorical columns behaves as follows, a missing value
  counting as the category \<^verbatim>\<open>'Unknown'\<close>. If a \<^verbatim>\<open>customerCategory\<close> value was not seen
  when the encoder was fitted, the call raises the \<^verbatim>\<open>ValueError\<close> of
  \<^verbatim>\<open>LabelEncoder.transform\<close> naming the unseen labels; otherwise, if a \<^verbatim>\<open>paymentMethod\<close>
  value was not seen, it raises likewise; there is no reserved code for unseen categories.
  If all values were seen, the call returns feature rows whose codes are the positions of
  the values among the fitted classes.
\<close>

theorem prepare_features_with_fitted_encoders:
  assumes "label_encoders m ''customerCategory'' = Some cc"
    and "label_encoders m ''paymentMethod'' = Some pm"
    and "''customerCategory'' \<in> set (columns df)"
    and "''paymentMethod'' \<in> set (columns df)"
    and "rows df \<noteq> []"
    and "cats = map (\<lambda>r. fillna_unknown (customerCategory r)) (rows df)"
    and "pms = map (\<lambda>r. fillna_unknown (paymentMethod r)) (rows df)"
  shows "(\<not> set cats \<subseteq> set cc \<longrightarrow>
            snd (prepare_features now cal m df) =
              Inl (UnseenLabels (sort (remdups (filter (\<lambda>y. y \<notin> set cc) cats))))) \<and>
         (set cats \<subseteq> set cc \<and> \<not> set pms \<subseteq> set pm \<longrightarrow>
            snd (prepare_features now cal m df) =
              Inl (UnseenLabels (sort (remdups (filter (\<lambda>y. y \<notin> set pm) pms))))) \<and>
         (set cats \<subseteq> set cc \<and> set pms \<subseteq> set pm \<longrightarrow>
            (\<exists>fs. snd (prepare_features now cal m df) = Inr fs \<and>
                  map customer_category_encoded fs = map (\<lambda>y. real (index_of cc y)) cats \<and>
                  map payment_method_encoded fs = map (\<lambda>y. real (index_of pm y)) pms))"
proof -
  have e1: "encode_column (label_encoders m) ''customerCategory'' (columns df)
              (map customerCategory (rows df)) = (label_encoders m, encoder_transform cc cats)"
    using assms(1,3,6) by (simp add: encode_column_def comp_def)
  have e2: "encode_column (label_encoders m) ''paymentMethod'' (columns df)
              (map paymentMethod (rows df)) = (label_encoders m, encoder_transform pm pms)"
    using assms(2,4,7) by (simp add: encode_column_def comp_def)
  have unseen_cc: "snd (prepare_features now cal m df) =
              Inl (UnseenLabels (sort (remdups (filter (\<lambda>y. y \<notin> set cc) cats))))"
    if "\<not> set cats \<subseteq> set cc"
    using that by (simp add: prepare_features_def Let_def e1 encoder_transform_unseen)
  have unseen_pm: "snd (prepare_features now cal m df) =
              Inl (UnseenLabels (sort (remdups (filter (\<lambda>y. y \<notin> set pm) pms))))"
    if "set cats \<subseteq> set cc \<and> \<not> set pms \<subseteq> set pm"
    using that
    by (simp add: prepare_features_def Let_def e1 e2 encoder_transform_unseen
        encoder_transform_seen)
  have seen: "\<exists>fs. snd (prepare_features now cal m df) = Inr fs \<and>
                  map customer_category_encoded fs = map (\<lambda>y. real (index_of cc y)) cats \<and>
                  map payment_method_encoded fs = map (\<lambda>y. real (index_of pm y)) pms"
    if h: "set cats \<subseteq> set cc \<and> set pms \<subseteq> set pm"
  proof -
    let ?base = "map (base_features now cal (columns df)) (rows df)"
    let ?cs = "map (\<lambda>y. real (index_of cc y)) cats"
    let ?ps = "map (\<lambda>y. real (index_of pm y)) pms"
    let ?coded = "map set_codes (zip ?base (zip ?cs ?ps))"
    let ?st = "scaler_fit (numerical_columns ?coded)"
    let ?fs = "map (\<lambda>f. set_numerical f (scaler_transform ?st (numerical_features f))) ?coded"
    have len: "length ?base = length ?cs" "length ?cs = length ?ps"
      using assms(6,7) by simp_all
    have ne: "?coded \<noteq> []"
      using assms(5,6,7) by (cases "rows df") simp_all
    have r: "snd (prepare_features now cal m df) = Inr ?fs"
      using h ne by (simp add: prepare_features_def Let_def e1 e2 encoder_transform_seen)
    have c: "map customer_category_encoded ?fs = ?cs" "map payment_method_encoded ?fs = ?ps"
      using codes_of_zip [OF len] by (simp_all add: set_numerical_codes comp_def)
    from r c show ?thesis by blast
  qed
  from unseen_cc unseen_pm seen show ?thesis by blast
qed
lemma trained_encoders:
  "label_encoders trained_manager ''customerCategory'' = Some [''Premium'']"
  "label_encoders trained_manager ''paymentMethod'' = Some [''Card'']"
  by (simp_all add: trained_manager_def)

lemma prediction_data_columns:
  "''customerCategory'' \<in> set (columns (prediction_data now c amt due d))"
  "''paymentMethod'' \<in> set (columns (prediction_data now c amt due d))"
  "rows (prediction_data now c amt due d) \<noteq> []"
  by (simp_all add: prediction_data_def)

lemma prediction_data_categories:
  "map (\<lambda>r. fillna_unknown (customerCategory r)) (rows (prediction_data now c amt due d))
     = [get_or (cust_category c) ''Regular'']"
  "map (\<lambda>r. fillna_unknown (paymentMethod r)) (rows (prediction_data now c amt due d))
     = [get_or (cust_preferredPaymentMethod c) ''Bank Transfer'']"
  by (simp_all add: prediction_data_def fillna_unknown_def)

text \<open>
  The claim as stated fails on the trained manager of the concrete deployment: the
  prediction frame of customer \<open>C2\<close> carries the category \<^verbatim>\<open>'Regular'\<close>, which the
  encoder has not seen, and \<^verbatim>\<open>prepare_features\<close> raises.
\<close>

theorem prepare_features_unseen_category_counterexample:
  "label_encoders trained_manager ''customerCategory'' = Some [''Premium''] \<and>
   customerCategory (hd (rows (prediction_data 0 customer_without_category None None 30)))
     = Some ''Regular'' \<and>
   snd (prepare_features 0 example_calendar trained_manager
          (prediction_data 0 customer_without_category None None 30))
     = Inl (UnseenLabels [''Regular''])"
  by (simp add: prep_defs prediction_data_def customer_without_category_def trained_manager_def
      get_or_def example_calendar_def Let_def)

theorem prepare_features_with_fitted_encoders_witness:
  "label_encoders trained_manager ''customerCategory'' = Some [''Premium''] \<and>
   label_encoders trained_manager ''paymentMethod'' = Some [''Card''] \<and>
   ''customerCategory'' \<in> set (columns (prediction_data 0 customer_without_category None None 30)) \<and>
   ''paymentMethod'' \<in> set (columns (prediction_data 0 customer_without_category None None 30)) \<and>
   rows (prediction_data 0 customer_without_category None None 30) \<noteq> [] \<and>
   \<not> set [''Regular''] \<subseteq> set [''Premium''] \<and>
   snd (prepare_features 0 example_calendar trained_manager
          (prediction_data 0 customer_without_category None None 30))
     = Inl (UnseenLabels [''Regular'']) \<and>
   set [''Premium''] \<subseteq> set [''Premium''] \<and> \<not> set [''Bank Transfer''] \<subseteq> set [''Card''] \<and>
   snd (prepare_features 0 example_calendar trained_manager
          (prediction_data 0 customer_without_method None None 30))
     = Inl (UnseenLabels [''Bank Transfer'']) \<and>
   set [''Card''] \<subseteq> set [''Card''] \<and>
   (\<exists>fs. snd (prepare_features 0 example_calendar trained_manager
                (prediction_data 0 premium_customer None None 30)) = Inr fs \<and>
         map customer_category_encoded fs = [0] \<and> map payment_method_encoded fs = [0])"
proof -
  note cols = prediction_data_columns
  have c2: "[''Regular''] = map (\<lambda>r. fillna_unknown (customerCategory r))
               (rows (prediction_data 0 customer_without_category None None 30))"
    and p2: "[''Card''] = map (\<lambda>r. fillna_unknown (paymentMethod r))
               (rows (prediction_data 0 customer_without_category None None 30))"
    by (simp_all add: prediction_data_categories customer_without_category_def get_or_def)
  have c3: "[''Premium''] = map (\<lambda>r. fillna_unknown (customerCategory r))
               (rows (prediction_data 0 customer_without_method None None 30))"
    and p3: "[''Bank Transfer''] = map (\<lambda>r. fillna_unknown (paymentMethod r))
               (rows (prediction_data 0 customer_without_method None None 30))"
    by (simp_all add: prediction_data_categories customer_without_method_def get_or_def)
  have c1: "[''Premium''] = map (\<lambda>r. fillna_unknown (customerCategory r))
               (rows (prediction_data 0 premium_customer None None 30))"
    and p1: "[''Card''] = map (\<lambda>r. fillna_unknown (paymentMethod r))
               (rows (prediction_data 0 premium_customer None None 30))"
    by (simp_all add: prediction_data_categories premium_customer_def get_or_def)
  have u: "\<not> set [''Regular''] \<subseteq> set [''Premium'']"
    "set [''Premium''] \<subseteq> set [''Premium''] \<and> \<not> set [''Bank Transfer''] \<subseteq> set [''Card'']"
    "set [''Premium''] \<subseteq> set [''Premium''] \<and> set [''Card''] \<subseteq> set [''Card'']"
    by simp_all
  note t2 = prepare_features_with_fitted_encoders
    [OF trained_encoders cols(1) cols(2) cols(3) c2 p2, of 0 example_calendar]
  note t3 = prepare_features_with_fitted_encoders
    [OF trained_encoders cols(1) cols(2) cols(3) c3 p3, of 0 example_calendar]
  note t1 = prepare_features_with_fitted_encoders
    [OF trained_encoders cols(1) cols(2) cols(3) c1 p1, of 0 example_calendar]
  have r2: "snd (prepare_features 0 example_calendar trained_manager
          (prediction_data 0 customer_without_category None None 30))
     = Inl (UnseenLabels [''Regular''])"
    using t2 u(1) by simp
  have r3: "snd (prepare_features 0 example_calendar trained_manager
          (prediction_data 0 customer_without_method None None 30))
     = Inl (UnseenLabels [''Bank Transfer''])"
    using t3 u(2) by simp
  have r1: "\<exists>fs. snd (prepare_features 0 example_calendar trained_manager
                (prediction_data 0 premium_customer None None 30)) = Inr fs \<and>
         map customer_category_encoded fs = [0] \<and> map payment_method_encoded fs = [0]"
    using t1 u(3) by simp
  from trained_encoders cols [of 0 customer_without_category None None 30] u r1 r2 r3
  show ?thesis by simp
qed

section \<open>Properties of prediction on an untrained manager\<close>

lemma load_missing:
  "model_file st = Missing \<or> metadata_file st = Missing \<Longrightarrow> load_model m st = (m, False)"
  by (auto simp: load_model_def)

lemma train_success_trained:
  assumes "snd (train w prep (m, st) data retrain) = Inr tmd"
  shows "is_trained (fst (fst (train w prep (m, st) data retrain)))"
  using assms
  by (auto simp: train_def Let_def split: sum.splits prod.splits option.splits if_splits)

text \<open>
  Claim C6, as the code has it. \<^verbatim>\<open>predict\<close> and \<^verbatim>\<open>predict_proba\<close> on a manager that is
  untrained in memory first try to load the persisted artifact. If one of the two files
  is missing, both fail with \<open>NotTrained\<close>. If both files are stored, the calls proceed
  as on the loaded manager, which is marked trained. After a successful \<^verbatim>\<open>train\<close> the
  same call to \<^verbatim>\<open>predict\<close> passes the check and returns the output of the estimator,
  provided feature preparation of the input and the estimator call themselves succeed.
  \<^verbatim>\<open>predict_proba\<close> on a trained or loaded manager whose estimator has no
  \<^verbatim>\<open>predict_proba\<close> fails with \<open>UnsupportedOperation\<close>.
\<close>

theorem predict_needs_a_trained_model:
  "(\<not> is_trained m \<and> (model_file st = Missing \<or> metadata_file st = Missing) \<longrightarrow>
      snd (predict w prep (m, st) df) = Inl NotTrained \<and>
      snd (predict_proba w prep (m, st) df) = Inl NotTrained) \<and>
   (\<not> is_trained m \<and> model_file st = Stored e \<and> metadata_file st = Stored md \<longrightarrow>
      is_trained (fst (load_model m st)) \<and> model (fst (load_model m st)) = e \<and>
      predict w prep (m, st) df = predict w prep (fst (load_model m st), st) df \<and>
      predict_proba w prep (m, st) df = predict_proba w prep (fst (load_model m st), st) df) \<and>
   (snd (train w prep (m, st) data retrain) = Inr tmd \<and>
    prep (fst (fst (train w prep (m, st) data retrain))) df = (m2, Inr xy) \<and>
    model m2 = Some est \<and> estimator_predict (ops w) est (map fst xy) = Inr ys \<longrightarrow>
      predict w prep (fst (train w prep (m, st) data retrain)) df = (m2, Inr ys)) \<and>
   (is_trained (lazy_load m st) \<and> \<not> is_classification (ops w) (lazy_load m st) \<longrightarrow>
      snd (predict_proba w prep (m, st) df) = Inl UnsupportedOperation)"
proof -
  have a: "snd (predict w prep (m, st) df) = Inl NotTrained \<and>
      snd (predict_proba w prep (m, st) df) = Inl NotTrained"
    if "\<not> is_trained m \<and> (model_file st = Missing \<or> metadata_file st = Missing)"
  proof -
    from that have "lazy_load m st = m"
      by (simp add: lazy_load_def load_missing)
    with that show ?thesis
      by (simp add: predict_def predict_proba_def Let_def)
  qed
  have b: "is_trained (fst (load_model m st)) \<and> model (fst (load_model m st)) = e \<and>
      predict w prep (m, st) df = predict w prep (fst (load_model m st), st) df \<and>
      predict_proba w prep (m, st) df = predict_proba w prep (fst (load_model m st), st) df"
    if "\<not> is_trained m \<and> model_file st = Stored e \<and> metadata_file st = Stored md"
  proof -
    from that have l: "is_trained (fst (load_model m st))" "model (fst (load_model m st)) = e"
      by (simp_all add: load_model_def)
    from that l have "lazy_load m st = fst (load_model m st)"
      "lazy_load (fst (load_model m st)) st = fst (load_model m st)"
      by (simp_all add: lazy_load_def)
    with l show ?thesis
      by (simp add: predict_def predict_proba_def Let_def)
  qed
  have c: "predict w prep (fst (train w prep (m, st) data retrain)) df = (m2, Inr ys)"
    if "snd (train w prep (m, st) data retrain) = Inr tmd \<and>
        prep (fst (fst (train w prep (m, st) data retrain))) df = (m2, Inr xy) \<and>
        model m2 = Some est \<and> estimator_predict (ops w) est (map fst xy) = Inr ys"
  proof -
    from that train_success_trained [of w prep m st data retrain tmd]
    have "is_trained (fst (fst (train w prep (m, st) data retrain)))" by blast
    with that show ?thesis
      by (simp add: predict_def lazy_load_def Let_def)
  qed
  have d: "snd (predict_proba w prep (m, st) df) = Inl UnsupportedOperation"
    if "is_trained (lazy_load m st) \<and> \<not> is_classification (ops w) (lazy_load m st)"
    using that by (simp add: predict_proba_def Let_def)
  from a b c d show ?thesis by blast
qed
lemma delay_prepare_premium:
  "delay_prepare 0 example_calendar trained_manager
      (prediction_data 0 premium_customer None None 30)
   = (serving_manager, Inr [(premium_vector, 0)])"
  by (simp add: delay_prepare_def prepare_premium feature_vector_def premium_vector_def)

lemma prepare_without_category:
  "prepare_features 0 example_calendar trained_manager
      (prediction_data 0 customer_without_category None None 30)
   = (trained_manager, Inl (UnseenLabels [''Regular'']))"
  by (simp add: prep_defs prediction_data_def customer_without_category_def
      trained_manager_def get_or_def example_calendar_def Let_def)

text \<open>
  The claim as stated fails on the concrete deployment: the call to \<^verbatim>\<open>predict\<close> on the
  prediction frame of customer \<open>C2\<close> fails with \<open>NotTrained\<close> before training, training
  succeeds, and the identical call then fails in feature preparation on the unseen
  category \<^verbatim>\<open>'Regular'\<close>.
\<close>

theorem predict_after_train_counterexample:
  "snd (predict (example_world SaveOk) (delay_prepare 0 example_calendar)
          (PaymentDelayPredictor, empty_storage)
          (prediction_data 0 customer_without_category None None 30)) = Inl NotTrained \<and>
   train (example_world SaveOk) (delay_prepare 0 example_calendar)
      (PaymentDelayPredictor, empty_storage) None False
     = ((trained_manager, written_storage), Inr example_metadata) \<and>
   snd (predict (example_world SaveOk) (delay_prepare 0 example_calendar)
          (trained_manager, written_storage)
          (prediction_data 0 customer_without_category None None 30))
     = Inl (UnseenLabels [''Regular''])"
proof -
  have a: "snd (predict (example_world SaveOk) (delay_prepare 0 example_calendar)
          (PaymentDelayPredictor, empty_storage)
          (prediction_data 0 customer_without_category None None 30)) = Inl NotTrained"
    by (simp add: predict_def lazy_load_def load_model_def empty_storage_def
        PaymentDelayPredictor_def Let_def)
  have b: "snd (predict (example_world SaveOk) (delay_prepare 0 example_calendar)
          (trained_manager, written_storage)
          (prediction_data 0 customer_without_category None None 30))
     = Inl (UnseenLabels [''Regular''])"
    by (simp add: predict_def lazy_load_def trained_flags Let_def delay_prepare_def
        prepare_without_category)
  from a b train_example_ok show ?thesis by simp
qed

theorem predict_needs_a_trained_model_witness:
  "\<not> is_trained (PaymentDelayPredictor :: nat manager) \<and>
   model_file empty_storage = Missing \<and>
   snd (predict (example_world SaveOk) (delay_prepare 0 example_calendar)
          (PaymentDelayPredictor, empty_storage)
          (prediction_data 0 premium_customer None None 30)) = Inl NotTrained \<and>
   snd (predict_proba (example_world SaveOk) (delay_prepare 0 example_calendar)
          (PaymentDelayPredictor, empty_storage)
          (prediction_data 0 premium_customer None None 30)) = Inl NotTrained \<and>
   model_file written_storage = Stored (Some (Suc 0)) \<and>
   metadata_file written_storage = Stored (Some example_metadata) \<and>
   is_trained (fst (load_model (PaymentDelayPredictor :: nat manager) written_storage)) \<and>
   predict (example_world SaveOk) (delay_prepare 0 example_calendar)
          (PaymentDelayPredictor, written_storage)
          (prediction_data 0 premium_customer None None 30)
     = predict (example_world SaveOk) (delay_prepare 0 example_calendar)
          (fst (load_model PaymentDelayPredictor written_storage), written_storage)
          (prediction_data 0 premium_customer None None 30) \<and>
   snd (train (example_world SaveOk) (delay_prepare 0 example_calendar)
          (PaymentDelayPredictor, empty_storage) None False) = Inr example_metadata \<and>
   delay_prepare 0 example_calendar
       (fst (fst (train (example_world SaveOk) (delay_prepare 0 example_calendar)
          (PaymentDelayPredictor, empty_storage) None False)))
       (prediction_data 0 premium_customer None None 30)
     = (serving_manager, Inr [(premium_vector, 0)]) \<and>
   model serving_manager = Some (Suc 0) \<and>
   estimator_predict (ops (example_world SaveOk)) (Suc 0) (map fst [(premium_vector, 0)])
     = Inr [0] \<and>
   predict (example_world SaveOk) (delay_prepare 0 example_calendar)
       (fst (train (example_world SaveOk) (delay_prepare 0 example_calendar)
          (PaymentDelayPredictor, empty_storage) None False))
       (prediction_data 0 premium_customer None None 30)
     = (serving_manager, Inr [0]) \<and>
   is_trained (lazy_load trained_manager written_storage) \<and>
   \<not> is_classification (ops regressor_world) (lazy_load trained_manager written_storage) \<and>
   snd (predict_proba regressor_world (delay_prepare 0 example_calendar)
          (trained_manager, written_storage)
          (prediction_data 0 premium_customer None None 30)) = Inl UnsupportedOperation"
proof -
  let ?w = "example_world SaveOk"
  let ?prep = "delay_prepare 0 example_calendar :: nat prepare"
  let ?df = "prediction_data 0 premium_customer None None 30"
  let ?P = "PaymentDelayPredictor :: nat manager"
  have a1: "\<not> is_trained ?P" by (simp add: PaymentDelayPredictor_def)
  have a2: "model_file empty_storage = Missing" by (simp add: empty_storage_def)
  note t1 = predict_needs_a_trained_model
    [where m = "?P" and st = empty_storage and w = "?w" and prep = "?prep" and df = "?df"]
  from t1 a1 a2 have r1: "snd (predict ?w ?prep (?P, empty_storage) ?df) = Inl NotTrained"
    "snd (predict_proba ?w ?prep (?P, empty_storage) ?df) = Inl NotTrained"
    by blast+
  have b1: "model_file written_storage = Stored (Some (Suc 0))"
    and b2: "metadata_file written_storage = Stored (Some example_metadata)"
    by (simp_all add: written_storage_def)
  note t2 = predict_needs_a_trained_model
    [where m = "?P" and st = written_storage and w = "?w" and prep = "?prep" and df = "?df"
       and e = "Some (Suc 0)" and md = "Some example_metadata"]
  from t2 a1 b1 b2 have r2: "is_trained (fst (load_model ?P written_storage))"
    "predict ?w ?prep (?P, written_storage) ?df
       = predict ?w ?prep (fst (load_model ?P written_storage), written_storage) ?df"
    by blast+
  have c1: "snd (train ?w ?prep (?P, empty_storage) None False) = Inr example_metadata"
    by (simp add: train_example_ok)
  have c2: "?prep (fst (fst (train ?w ?prep (?P, empty_storage) None False))) ?df
      = (serving_manager, Inr [(premium_vector, 0)])"
    by (simp add: train_example_ok delay_prepare_premium)
  have c3: "model serving_manager = Some (Suc 0)" by (rule trained_flags)
  have c4: "estimator_predict (ops ?w) (Suc 0) (map fst [(premium_vector, 0)]) = Inr [0]"
    by (simp add: example_world_simps example_ops_simps)
  note t3 = predict_needs_a_trained_model
    [where m = "?P" and st = empty_storage and w = "?w" and prep = "?prep" and df = "?df"
       and data = None and retrain = False and tmd = example_metadata
       and ?m2.0 = serving_manager and xy = "[(premium_vector, 0)]" and est = "Suc 0"
       and ys = "[0]"]
  from t3 c1 c2 c3 c4
  have r3: "predict ?w ?prep (fst (train ?w ?prep (?P, empty_storage) None False)) ?df
      = (serving_manager, Inr [0])"
    by blast
  have d1: "is_trained (lazy_load trained_manager written_storage)"
    by (simp add: lazy_load_def trained_flags)
  have d2: "\<not> is_classification (ops regressor_world) (lazy_load trained_manager written_storage)"
    by (simp add: lazy_load_def trained_flags is_classification_def regressor_world_def
        example_world_def)
  note t4 = predict_needs_a_trained_model
    [where m = trained_manager and st = written_storage and w = regressor_world
       and prep = "?prep" and df = "?df"]
  from t4 d1 d2
  have r4: "snd (predict_proba regressor_world ?prep (trained_manager, written_storage) ?df)
      = Inl UnsupportedOperation"
    by blast
  from a1 a2 r1 b1 b2 r2 c1 c2 c3 c4 r3 d1 d2 r4 show ?thesis by blast
qed


section \<open>The scaler\<close>

text \<open>
  Claim C9, evaluated on the concrete deployment. Training fits the scaler on the training
  frame (means \<open>[200, 1000, 500, 1/2, 10]\<close>, deviations \<open>[100, 1, 1, 1, 1]\<close>). The next call
  of \<^verbatim>\<open>prepare_features\<close>, on the one-row prediction frame of customer \<open>C1\<close>, fits the
  scaler again on that row: the stored means become the row itself and every scaled
  column of the row is 0, where the statistics of the training frame would have given
  \<open>[1, 0, 400, 2/5, 20]\<close>.
\<close>

theorem scaler_refitted_on_prediction_input:
  "fst (fst (train (example_world SaveOk) (delay_prepare 0 example_calendar)
          (PaymentDelayPredictor, empty_storage) None False)) = trained_manager \<and>
   scaler trained_manager
     = Some \<lparr>sc_mean = [200, 1000, 500, 1 / 2, 10], sc_scale = [100, 1, 1, 1, 1]\<rparr> \<and>
   prepare_features 0 example_calendar trained_manager
       (prediction_data 0 premium_customer None None 30)
     = (serving_manager,
        Inr [\<lparr>payment_amount = 0, credit_limit = 0, outstanding_amount = 0,
              credit_utilization = 0, due_day_of_week = 2, due_day_of_month = 1,
              due_month = 1, due_quarter = 1, days_until_due = 0,
              customer_category_encoded = 0, payment_method_encoded = 0,
              avg_delay_days = 0, payment_frequency = 1, total_payments = 1,
              is_delayed = 0\<rparr>]) \<and>
   scaler serving_manager
     = Some \<lparr>sc_mean = [300, 1000, 900, 9 / 10, 30], sc_scale = [1, 1, 1, 1, 1]\<rparr> \<and>
   scaler_transform \<lparr>sc_mean = [200, 1000, 500, 1 / 2, 10], sc_scale = [100, 1, 1, 1, 1]\<rparr>
       [300, 1000, 900, 9 / 10, 30] = [1, 0, 400, 2 / 5, 20]"
  unfolding train_example_ok prepare_premium
  by (simp add: trained_manager_def serving_manager_def scaler_transform_def)

section \<open>Properties of the risk tier\<close>

lemma predict_payment_delay_probability:
  assumes "snd (predict_payment_delay w cal db ms cid amt due_date days_ahead) = Inr r"
  shows "\<exists>c probs.
     find_customer db cid = Some c \<and>
     snd (predict_proba w (delay_prepare (clock w) cal)
            (if \<not> is_trained (fst ms)
             then fst (train w (delay_prepare (clock w) cal) ms None False) else ms)
            (prediction_data (clock w) c amt due_date days_ahead)) = Inr probs \<and>
     proba_0_1 probs = Inr (delay_probability r) \<and>
     customer_id r = cid \<and>
     risk_level r = calculate_risk_level (delay_probability r) \<and>
     confidence_score r = max (delay_probability r) (1 - delay_probability r)"
  using assms
  by (auto simp: predict_payment_delay_def Let_def
      split: prod.splits sum.splits option.splits if_splits)

text \<open>
  Claim C4. The tier of a delay probability \<open>p\<close> is Low exactly when \<open>p < 0.4\<close>, Medium
  exactly when \<open>0.4 \<le> p < 0.7\<close> and High exactly when \<open>p \<ge> 0.7\<close>; 0.4 is Medium,
  0.3999 is Low, 0.7 is High. Every prediction that \<^verbatim>\<open>predict_payment_delay\<close> returns is
  for a customer that exists; its delay probability is the entry \<^verbatim>\<open>[0][1]\<close> of what
  \<^verbatim>\<open>predict_proba\<close> returned on the customer's frame (on the manager as it is after the
  training the call may have started), its tier is the tier of that probability and its
  confidence is \<open>max p (1 - p)\<close>.
\<close>

theorem risk_tier_and_confidence:
  "(calculate_risk_level p = ''Low'' \<longleftrightarrow> p < 0.4) \<and>
   (calculate_risk_level p = ''Medium'' \<longleftrightarrow> 0.4 \<le> p \<and> p < 0.7) \<and>
   (calculate_risk_level p = ''High'' \<longleftrightarrow> p \<ge> 0.7) \<and>
   calculate_risk_level 0.4 = ''Medium'' \<and>
   calculate_risk_level 0.3999 = ''Low'' \<and>
   calculate_risk_level 0.7 = ''High'' \<and>
   (snd (predict_payment_delay w cal db ms cid amt due_date days_ahead) = Inr r \<longrightarrow>
      (\<exists>c probs.
         find_customer db cid = Some c \<and>
         snd (predict_proba w (delay_prepare (clock w) cal)
                (if \<not> is_trained (fst ms)
                 then fst (train w (delay_prepare (clock w) cal) ms None False) else ms)
                (prediction_data (clock w) c amt due_date days_ahead)) = Inr probs \<and>
         proba_0_1 probs = Inr (delay_probability r)) \<and>
      customer_id r = cid \<and>
      risk_level r = calculate_risk_level (delay_probability r) \<and>
      confidence_score r = max (delay_probability r) (1 - delay_probability r))"
proof -
  have "(\<exists>c probs.
         find_customer db cid = Some c \<and>
         snd (predict_proba w (delay_prepare (clock w) cal)
                (if \<not> is_trained (fst ms)
                 then fst (train w (delay_prepare (clock w) cal) ms None False) else ms)
                (prediction_data (clock w) c amt due_date days_ahead)) = Inr probs \<and>
         proba_0_1 probs = Inr (delay_probability r)) \<and>
      customer_id r = cid \<and>
      risk_level r = calculate_risk_level (delay_probability r) \<and>
      confidence_score r = max (delay_probability r) (1 - delay_probability r)"
    if "snd (predict_payment_delay w cal db ms cid amt due_date days_ahead) = Inr r"
    using predict_payment_delay_probability [OF that] by blast
  then show ?thesis
    by (simp add: calculate_risk_level_def)
qed

theorem risk_tier_and_confidence_witness:
  "snd (predict_payment_delay (example_world SaveOk) example_calendar example_database
      (trained_manager, written_storage) ''C1'' None None 30) = Inr premium_prediction \<and>
   find_customer example_database ''C1'' = Some premium_customer \<and>
   snd (predict_proba (example_world SaveOk) (delay_prepare 0 example_calendar)
          (trained_manager, written_storage)
          (prediction_data 0 premium_customer None None 30)) = Inr [[0.6, 0.4]] \<and>
   proba_0_1 [[0.6, 0.4]] = Inr (delay_probability premium_prediction) \<and>
   delay_probability premium_prediction = 0.4 \<and>
   customer_id premium_prediction = ''C1'' \<and>
   risk_level premium_prediction = calculate_risk_level 0.4 \<and>
   risk_level premium_prediction = ''Medium'' \<and>
   confidence_score premium_prediction = max 0.4 (1 - 0.4)"
proof -
  have a: "snd (predict_payment_delay (example_world SaveOk) example_calendar example_database
      (trained_manager, written_storage) ''C1'' None None 30) = Inr premium_prediction"
    by (simp add: predict_premium)
  have b: "delay_probability premium_prediction = 0.4"
    by (simp add: premium_prediction_def)
  have c: "find_customer example_database ''C1'' = Some premium_customer"
    by (simp add: example_database_def)
  have d: "snd (predict_proba (example_world SaveOk) (delay_prepare 0 example_calendar)
          (trained_manager, written_storage)
          (prediction_data 0 premium_customer None None 30)) = Inr [[0.6, 0.4]]"
    by (simp add: predict_proba_def lazy_load_def trained_flags is_classification_def
        example_world_simps example_ops_simps delay_prepare_premium Let_def)
  have e: "proba_0_1 [[0.6, 0.4]] = Inr (delay_probability premium_prediction)"
    by (simp add: proba_0_1_def premium_prediction_def)
  from risk_tier_and_confidence [of "0.4" "example_world SaveOk" example_calendar
      example_database "(trained_manager, written_storage)" "''C1''" None None 30
      premium_prediction] a b
  have "customer_id premium_prediction = ''C1'' \<and>
     risk_level premium_prediction = calculate_risk_level 0.4 \<and>
     risk_level premium_prediction = ''Medium'' \<and>
     confidence_score premium_prediction = max 0.4 (1 - 0.4)"
    by simp
  with a b c d e show ?thesis by blast
qed

section \<open>Properties of the in-flight guard\<close>

lemma training_runs_update:
  "i < length ts \<Longrightarrow>
   training_runs v (ts[i := t]) + (if is_training v (ts ! i) then 1 else 0)
     = training_runs v ts + (if is_training v t then 1 else 0)"
  unfolding training_runs_def
proof (induction ts arbitrary: i)
  case Nil
  then show ?case by simp
next
  case (Cons a ts)
  show ?case
  proof (cases i)
    case 0
    then show ?thesis by simp
  next
    case (Suc j)
    with Cons.prems have "j < length ts" by simp
    from Cons.IH [OF this] Suc show ?thesis by simp
  qed
qed

lemma list_all_update:
  "list_all P ts \<Longrightarrow> P t \<Longrightarrow> list_all P (ts[i := t])"
  by (induction ts arbitrary: i) (auto split: nat.splits)

lemma is_train_model_cases:
  "is_train_model t \<Longrightarrow> \<exists>mt f ph. t = TrainModel mt f ph"
  by (cases t) simp_all

lemma process_step_invariant:
  assumes a: "list_all is_train_model (tasks p)"
    and b: "\<forall>v. training_runs v (tasks p) = (if v \<in> dom (training_in_progress p) then 1 else 0)"
  shows "list_all is_train_model (tasks (process_step w te prep p i)) \<and>
     (\<forall>v. training_runs v (tasks (process_step w te prep p i))
        = (if v \<in> dom (training_in_progress (process_step w te prep p i)) then 1 else 0))"
proof (cases "i < length (tasks p)")
  case False
  with a b show ?thesis by (simp add: process_step_def)
next
  case True
  from a True have "is_train_model (tasks p ! i)"
    by (simp add: list_all_length)
  then obtain mt f ph where t: "tasks p ! i = TrainModel mt f ph"
    using is_train_model_cases by blast
  note upd = training_runs_update [OF True]
  show ?thesis
  proof (cases ph)
    case AtGuard
    show ?thesis
    proof (cases "mt \<in> dom (training_in_progress p)")
      case True
      have "training_runs v ((tasks p)[i := TrainModel mt f
                (Finished (Skipped ''Training already in progress''))]) = training_runs v (tasks p)"
        for v
        using upd [of v "TrainModel mt f (Finished (Skipped ''Training already in progress''))"]
          t AtGuard by auto
      with a b True t AtGuard \<open>i < length (tasks p)\<close> show ?thesis
        by (simp add: process_step_def train_model_enter_def list_all_update)
    next
      case False
      have "training_runs v ((tasks p)[i := TrainModel mt f InBody])
          = training_runs v (tasks p) + (if v = mt then 1 else 0)" for v
        using upd [of v "TrainModel mt f InBody"] t AtGuard by auto
      with a b False t AtGuard \<open>i < length (tasks p)\<close> show ?thesis
        by (auto simp: process_step_def train_model_enter_def list_all_update
            mark_in_progress_def)
    qed
  next
    case InBody
    obtain ms' r where body: "train_model_body (w mt) te (prep mt)
        (training_models p mt, stored p mt) mt f = (ms', r)"
      by (cases "train_model_body (w mt) te (prep mt) (training_models p mt, stored p mt) mt f")
    have u: "training_runs v ((tasks p)[i := TrainModel mt f (Finished r)])
          + (if v = mt then 1 else 0) = training_runs v (tasks p)" for v
      using upd [of v "TrainModel mt f (Finished r)"] t InBody by auto
    have c: "\<And>v. training_runs v ((tasks p)[i := TrainModel mt f (Finished r)])
         = (if v \<in> dom (pop_in_progress (training_in_progress p) mt) then 1 else 0)"
    proof -
      fix v
      show "training_runs v ((tasks p)[i := TrainModel mt f (Finished r)])
         = (if v \<in> dom (pop_in_progress (training_in_progress p) mt) then 1 else 0)"
      proof (cases "v = mt")
        case True
        with u [of v] b have "training_runs v ((tasks p)[i := TrainModel mt f (Finished r)]) = 0"
          by (simp split: if_splits)
        with True show ?thesis by (simp add: pop_in_progress_def)
      next
        case False
        with u [of v] b show ?thesis by (simp add: pop_in_progress_def)
      qed
    qed
    from a c t InBody body \<open>i < length (tasks p)\<close> show ?thesis
      by (simp add: process_step_def list_all_update)
  next
    case (Finished r)
    with a b t \<open>i < length (tasks p)\<close> show ?thesis
      by (simp add: process_step_def)
  qed
qed

lemma run_schedule_invariant:
  assumes "list_all is_train_model (tasks p)"
    and "\<forall>v. training_runs v (tasks p) = (if v \<in> dom (training_in_progress p) then 1 else 0)"
  shows "list_all is_train_model (tasks (run_schedule w te prep p schedule)) \<and>
     (\<forall>v. training_runs v (tasks (run_schedule w te prep p schedule))
        = (if v \<in> dom (training_in_progress (run_schedule w te prep p schedule)) then 1 else 0))"
  using assms unfolding run_schedule_def
proof (induction schedule arbitrary: p)
  case Nil
  then show ?case by simp
next
  case (Cons i schedule)
  from process_step_invariant [OF Cons.prems, of w te prep i]
  have "list_all is_train_model (tasks (process_step w te prep p i))"
    "\<forall>v. training_runs v (tasks (process_step w te prep p i))
        = (if v \<in> dom (training_in_progress (process_step w te prep p i)) then 1 else 0)"
    by blast+
  from Cons.IH [OF this] show ?case by simp
qed

lemma new_requests_idle:
  "list_all is_new_request ts \<Longrightarrow> list_all is_train_model ts \<and> training_runs v ts = 0"
proof (induction ts)
  case Nil
  then show ?case by (simp add: training_runs_def)
next
  case (Cons t ts)
  then show ?case
    by (cases t rule: is_new_request.cases) (simp_all add: training_runs_def)
qed

text \<open>
  Claim C5, as the code has it. Among the calls of \<^verbatim>\<open>TrainingService._train_model\<close>, at
  most one per model type is inside its \<^verbatim>\<open>try\<close> block at any instant: in every state that
  a process of such calls reaches from an empty in-flight dictionary, under every
  schedule, each model type has at most one training run in flight, and it has one
  exactly when it is in the dictionary. A call that finds its model type in the
  dictionary finishes with \<^verbatim>\<open>'skipped'\<close> and the reason
  \<^verbatim>\<open>'Training already in progress'\<close> and changes nothing else; a call that does not find
  it enters its body and puts it there; a call that ends its body, with whatever result,
  takes it out. The training runs that \<^verbatim>\<open>PredictionService\<close> starts are outside this
  guard.
\<close>

theorem guarded_requests_train_one_at_a_time:
  "(list_all is_new_request (tasks p) \<and> training_in_progress p = Map.empty \<longrightarrow>
      training_runs v (tasks (run_schedule w te prep p schedule)) \<le> 1 \<and>
      (v \<in> dom (training_in_progress (run_schedule w te prep p schedule)) \<longleftrightarrow>
         training_runs v (tasks (run_schedule w te prep p schedule)) = 1)) \<and>
   (i < length (tasks p) \<and> tasks p ! i = TrainModel mt f AtGuard \<and>
    mt \<in> dom (training_in_progress p) \<longrightarrow>
      process_step w te prep p i =
        p\<lparr>tasks := (tasks p)[i := TrainModel mt f
                      (Finished (Skipped ''Training already in progress''))]\<rparr>) \<and>
   (i < length (tasks p) \<and> tasks p ! i = TrainModel mt f AtGuard \<and>
    mt \<notin> dom (training_in_progress p) \<longrightarrow>
      tasks (process_step w te prep p i) ! i = TrainModel mt f InBody \<and>
      mt \<in> dom (training_in_progress (process_step w te prep p i))) \<and>
   (i < length (tasks p) \<and> tasks p ! i = TrainModel mt f InBody \<longrightarrow>
      tasks (process_step w te prep p i) ! i =
        TrainModel mt f (Finished (snd (train_model_body (w mt) te (prep mt)
                                          (training_models p mt, stored p mt) mt f))) \<and>
      (training_models (process_step w te prep p i) mt,
       stored (process_step w te prep p i) mt) =
        fst (train_model_body (w mt) te (prep mt) (training_models p mt, stored p mt) mt f) \<and>
      mt \<notin> dom (training_in_progress (process_step w te prep p i)))"
proof -
  have reach: "training_runs v (tasks (run_schedule w te prep p schedule)) \<le> 1 \<and>
      (v \<in> dom (training_in_progress (run_schedule w te prep p schedule)) \<longleftrightarrow>
         training_runs v (tasks (run_schedule w te prep p schedule)) = 1)"
    if h: "list_all is_new_request (tasks p) \<and> training_in_progress p = Map.empty"
  proof -
    from h new_requests_idle have a: "list_all is_train_model (tasks p)"
      and b: "\<forall>v. training_runs v (tasks p) = (if v \<in> dom (training_in_progress p) then 1 else 0)"
      by auto
    from run_schedule_invariant [OF a b, of w te prep schedule]
    have "training_runs v (tasks (run_schedule w te prep p schedule))
        = (if v \<in> dom (training_in_progress (run_schedule w te prep p schedule)) then 1 else 0)"
      by blast
    then show ?thesis by (simp split: if_splits)
  qed
  have skip: "process_step w te prep p i =
        p\<lparr>tasks := (tasks p)[i := TrainModel mt f
                      (Finished (Skipped ''Training already in progress''))]\<rparr>"
    if "i < length (tasks p) \<and> tasks p ! i = TrainModel mt f AtGuard \<and>
        mt \<in> dom (training_in_progress p)"
    using that by (simp add: process_step_def train_model_enter_def)
  have enter: "tasks (process_step w te prep p i) ! i = TrainModel mt f InBody \<and>
      mt \<in> dom (training_in_progress (process_step w te prep p i))"
    if "i < length (tasks p) \<and> tasks p ! i = TrainModel mt f AtGuard \<and>
        mt \<notin> dom (training_in_progress p)"
    using that by (simp add: process_step_def train_model_enter_def mark_in_progress_def)
  have leave: "tasks (process_step w te prep p i) ! i =
        TrainModel mt f (Finished (snd (train_model_body (w mt) te (prep mt)
                                          (training_models p mt, stored p mt) mt f))) \<and>
      (training_models (process_step w te prep p i) mt,
       stored (process_step w te prep p i) mt) =
        fst (train_model_body (w mt) te (prep mt) (training_models p mt, stored p mt) mt f) \<and>
      mt \<notin> dom (training_in_progress (process_step w te prep p i))"
    if "i < length (tasks p) \<and> tasks p ! i = TrainModel mt f InBody"
    using that
    by (simp add: process_step_def pop_in_progress_def split: prod.splits)
  from reach skip enter leave show ?thesis by blast
qed

lemma untrained_predictor: "\<not> is_trained (PaymentDelayPredictor :: nat manager)"
  by (simp add: PaymentDelayPredictor_def)

lemma example_body:
  "train_model_body (example_world SaveOk) example_training_env
      (delay_prepare 0 example_calendar) (PaymentDelayPredictor, empty_storage)
      ''payment_delay'' False
   = ((trained_manager, written_storage), example_success)"
  by (simp add: train_model_body_def check_training_data_availability_def
      example_training_env_def example_world_simps train_example_ok Let_def
      example_metadata_def untrained_predictor example_success_def)

lemmas process_defs = run_schedule_def process_step_def example_process_def
  example_worlds_def example_prepares_def train_model_enter_def mark_in_progress_def
  pop_in_progress_def training_runs_def


text \<open>
  The claim as stated fails for the process as a whole: while a call of \<^verbatim>\<open>_train_model\<close>
  for the delay variant is in its body, \<^verbatim>\<open>retrain_models\<close> starts a second training run
  of the same variant.
\<close>

theorem unguarded_retrain_counterexample:
  "tasks (run_schedule example_worlds example_training_env example_prepares
            (example_process request_and_retrain) [0, 1])
     = [TrainModel ''payment_delay'' False InBody, RetrainModels ''payment_delay'' InTrain] \<and>
   training_runs ''payment_delay''
     (tasks (run_schedule example_worlds example_training_env example_prepares
               (example_process request_and_retrain) [0, 1])) = 2"
  by (simp add: process_defs request_and_retrain_def)

theorem guarded_requests_train_one_at_a_time_witness:
  "list_all is_new_request (tasks (example_process three_requests)) \<and>
   training_in_progress (example_process three_requests) = Map.empty \<and>
   training_runs ''payment_delay''
     (tasks (run_schedule example_worlds example_training_env example_prepares
               (example_process three_requests) [0, 1, 2])) = 1 \<and>
   ''payment_delay'' \<in> dom (training_in_progress
      (run_schedule example_worlds example_training_env example_prepares
         (example_process three_requests) [0, 1, 2])) \<and>
   tasks (run_schedule example_worlds example_training_env example_prepares
            (example_process three_requests) [0]) ! 1
     = TrainModel ''payment_delay'' True AtGuard \<and>
   ''payment_delay'' \<in> dom (training_in_progress
      (run_schedule example_worlds example_training_env example_prepares
         (example_process three_requests) [0])) \<and>
   tasks (process_step example_worlds example_training_env example_prepares
      (run_schedule example_worlds example_training_env example_prepares
         (example_process three_requests) [0]) 1) ! 1
     = TrainModel ''payment_delay'' True
         (Finished (Skipped ''Training already in progress'')) \<and>
   tasks (example_process three_requests) ! 0 = TrainModel ''payment_delay'' False AtGuard \<and>
   ''payment_delay'' \<notin> dom (training_in_progress (example_process three_requests)) \<and>
   tasks (process_step example_worlds example_training_env example_prepares
            (example_process three_requests) 0) ! 0
     = TrainModel ''payment_delay'' False InBody \<and>
   tasks (run_schedule example_worlds example_training_env example_prepares
            (example_process three_requests) [0]) ! 0
     = TrainModel ''payment_delay'' False InBody \<and>
   tasks (process_step example_worlds example_training_env example_prepares
      (run_schedule example_worlds example_training_env example_prepares
         (example_process three_requests) [0]) 0) ! 0
     = TrainModel ''payment_delay'' False (Finished example_success) \<and>
   ''payment_delay'' \<notin> dom (training_in_progress
      (process_step example_worlds example_training_env example_prepares
         (run_schedule example_worlds example_training_env example_prepares
            (example_process three_requests) [0]) 0)) \<and>
   training_models (process_step example_worlds example_training_env example_prepares
      (run_schedule example_worlds example_training_env example_prepares
         (example_process three_requests) [0]) 0) ''payment_delay'' = trained_manager \<and>
   stored (process_step example_worlds example_training_env example_prepares
      (run_schedule example_worlds example_training_env example_prepares
         (example_process three_requests) [0]) 0) ''payment_delay'' = written_storage"
proof -
  let ?P0 = "example_process three_requests"
  let ?R = "run_schedule example_worlds example_training_env example_prepares"
  let ?S = "process_step example_worlds example_training_env example_prepares"
  let ?pd = "''payment_delay''"
  have a1: "list_all is_new_request (tasks ?P0)"
    and a2: "training_in_progress ?P0 = Map.empty"
    by (simp_all add: example_process_def three_requests_def)
  note t1 = guarded_requests_train_one_at_a_time
    [where p = "?P0" and v = "?pd" and w = example_worlds and te = example_training_env
       and prep = example_prepares and schedule = "[0, 1, 2]"]
  have b0: "?pd \<in> dom (training_in_progress (?R ?P0 [0, 1, 2]))"
    by (simp add: process_defs three_requests_def)
  from t1 a1 a2 b0 have b1: "training_runs ?pd (tasks (?R ?P0 [0, 1, 2])) = 1"
    by blast
  have p1_tasks: "tasks (?R ?P0 [0]) =
      [TrainModel ?pd False InBody, TrainModel ?pd True AtGuard,
       TrainModel ''payment_amount'' False AtGuard]"
    and p1_tip: "?pd \<in> dom (training_in_progress (?R ?P0 [0]))"
    and p1_models: "training_models (?R ?P0 [0]) ?pd = PaymentDelayPredictor"
      "stored (?R ?P0 [0]) ?pd = empty_storage"
    by (simp_all add: process_defs three_requests_def)
  have c1: "1 < length (tasks (?R ?P0 [0]))"
    and c2: "tasks (?R ?P0 [0]) ! 1 = TrainModel ?pd True AtGuard"
    and e1: "0 < length (tasks (?R ?P0 [0]))"
    and e2: "tasks (?R ?P0 [0]) ! 0 = TrainModel ?pd False InBody"
    by (simp_all add: p1_tasks)
  note t2 = guarded_requests_train_one_at_a_time
    [where p = "?R ?P0 [0]" and i = 1 and mt = "?pd" and f = True and w = example_worlds
       and te = example_training_env and prep = example_prepares]
  from t2 c1 c2 p1_tip have "?S (?R ?P0 [0]) 1 =
      (?R ?P0 [0])\<lparr>tasks := (tasks (?R ?P0 [0]))[1 := TrainModel ?pd True
                      (Finished (Skipped ''Training already in progress''))]\<rparr>"
    by blast
  then have c3: "tasks (?S (?R ?P0 [0]) 1) ! 1
      = TrainModel ?pd True (Finished (Skipped ''Training already in progress''))"
    by (simp add: p1_tasks)
  have d1: "0 < length (tasks ?P0)"
    and d2: "tasks ?P0 ! 0 = TrainModel ?pd False AtGuard"
    and d3: "?pd \<notin> dom (training_in_progress ?P0)"
    by (simp_all add: example_process_def three_requests_def)
  note t3 = guarded_requests_train_one_at_a_time
    [where p = "?P0" and i = 0 and mt = "?pd" and f = False and w = example_worlds
       and te = example_training_env and prep = example_prepares]
  from t3 d1 d2 d3 have d4: "tasks (?S ?P0 0) ! 0 = TrainModel ?pd False InBody"
    by blast
  note t4 = guarded_requests_train_one_at_a_time
    [where p = "?R ?P0 [0]" and i = 0 and mt = "?pd" and f = False and w = example_worlds
       and te = example_training_env and prep = example_prepares]
  from t4 e1 e2 have "tasks (?S (?R ?P0 [0]) 0) ! 0 =
        TrainModel ?pd False (Finished (snd (train_model_body (example_worlds ?pd)
           example_training_env (example_prepares ?pd)
           (training_models (?R ?P0 [0]) ?pd, stored (?R ?P0 [0]) ?pd) ?pd False)))"
    and e5: "(training_models (?S (?R ?P0 [0]) 0) ?pd, stored (?S (?R ?P0 [0]) 0) ?pd) =
        fst (train_model_body (example_worlds ?pd) example_training_env (example_prepares ?pd)
           (training_models (?R ?P0 [0]) ?pd, stored (?R ?P0 [0]) ?pd) ?pd False)"
    and e4: "?pd \<notin> dom (training_in_progress (?S (?R ?P0 [0]) 0))"
    by blast+
  then have e3: "tasks (?S (?R ?P0 [0]) 0) ! 0 = TrainModel ?pd False (Finished example_success)"
    and e6: "training_models (?S (?R ?P0 [0]) 0) ?pd = trained_manager"
      "stored (?S (?R ?P0 [0]) 0) ?pd = written_storage"
    by (simp_all add: p1_models example_worlds_def example_prepares_def example_body)
  from a1 a2 b1 b0 c2 p1_tip c3 d2 d3 d4 e2 e3 e4 e6 show ?thesis by blast
qed

end
